theory Spec2Isabelle
  imports Complex_Main "HOL-Library.Word"
begin

section \<open>The AXI DMA demo program (axidmaapp/files/demo.c)\<close>

text \<open>
  The program is a single C file. It talks to the outside through the DMA library
  (\<open>axidmaapp.h\<close>), the helpers of \<open>util.h\<close> and \<open>conversion.h\<close>, and libc
  (\<open>getopt\<close>, \<open>printf\<close>, \<open>pthread_create\<close>, \<open>close\<close>). None of these is part of the
  file, so every call to them is an \<open>event\<close> of the trace a task produces, and what the
  call gives back is read from an environment record \<open>env\<close>. The C \<open>int\<close>s the program only
  compares and copies (channel ids, sizes, \<open>argc\<close>, \<open>optind\<close>, the codes of the helpers) are
  modelled as \<open>int\<close>; \<open>argc - 2\<close> cannot overflow, \<open>argc\<close> being a count of arguments. The
  result of a send is negated at line 461, so it is a \<open>32 word\<close>, read as a signed value by
  \<open>sint\<close>. Bytes of the two staging buffers are \<open>8 word\<close>.
\<close>

subsection \<open>Data\<close>

type_synonym u8 = "8 word"

text \<open>\<open>axidma_dev_t\<close> is a pointer to the device structure; \<open>NULL\<close> is \<open>None\<close>.\<close>

type_synonym axidma_dev_t = nat

text \<open>The fields of \<open>struct dma_transfer\<close> that demo.c touches.\<close>

record dma_transfer =
  input_channel :: int
  output_channel :: int
  input_size :: int
  output_size :: int
  output_fd :: int

datatype stream = Stdout | Stderr

text \<open>
  One constructor per external call the two tasks make. \<open>Pthread_join\<close> is never produced
  by the program; it is part of the type so that its absence from a trace can be stated.
\<close>

datatype event =
    Axidma_config
  | XDma_Out32
  | Print stream string
  | Axidma_init "axidma_dev_t option"
  | Axidma_get_dma_tx axidma_dev_t
  | Axidma_get_dma_rx axidma_dev_t
  | Axidma0send axidma_dev_t dma_transfer "u8 list"
  | Axidma0read axidma_dev_t dma_transfer
  | Sleep nat
  | Pthread_create int
  | Pthread_detach
  | Pthread_join
  | Axidma_destroy axidma_dev_t
  | Close int

text \<open>
  How a task ends: it returns a code, calls \<open>exit\<close>, dies in a failed \<open>assert\<close>, is still
  inside the receive loop when the observation stops, or reads past the receive array.
\<close>

datatype outcome = Returned int | Exited int | Aborted | Running | Undefined

text \<open>How \<open>parse_args\<close> ends: \<open>return rc\<close> or \<open>exit(0)\<close> (the \<open>-h\<close> case).\<close>

datatype flow = Return int | Exit int

text \<open>
  What the outside gives back to one task.
  \<^item> \<open>argc\<close>: the task's \<open>argc\<close>;
  \<^item> \<open>getopt_rets\<close>: the values \<open>getopt(argc, argv, "t:r:s:o:h")\<close> returns on its successive
    calls, each with the \<open>optarg\<close> it sets, up to (and without) the final \<open>-1\<close>; an
    unrecognised option or a missing argument is the character \<open>?\<close>;
  \<^item> \<open>optind_end\<close>: \<open>optind\<close> once \<open>getopt\<close> has returned \<open>-1\<close>, so that
    \<open>argc - optind_end\<close> tokens of the command line are left unconsumed;
  \<^item> \<open>parse_int\<close>, \<open>parse_double\<close> (util.h): the return code and the value stored through the
    pointer; \<open>MIB_TO_BYTE\<close> (conversion.h) with the conversion to \<open>int\<close> of the assignment;
    \<open>mib_text\<close>: the text \<open>printf("%.4f", BYTE_TO_MIB(n))\<close> prints;
  \<^item> \<open>axidma_init\<close>, \<open>axidma_get_dma_tx\<close>, \<open>axidma_get_dma_rx\<close>: the library's results (a
    channel array \<open>array_t\<close> is the list of its \<open>len\<close> entries);
  \<^item> \<open>axidma0send k\<close>: the \<open>int\<close> the \<open>k\<close>-th send returns; \<open>axidma0read k\<close>: the length
    the \<open>k\<close>-th receive returns and the contents of \<open>rbuffer\<close> after it;
  \<^item> \<open>pthread_create\<close>, \<open>close_ret\<close>: the codes of \<open>pthread_create\<close> and \<open>close\<close>.
\<close>

record env =
  argc :: int
  getopt_rets :: "(char \<times> string) list"
  optind_end :: int
  parse_int :: "string \<Rightarrow> int \<times> int"
  parse_double :: "string \<Rightarrow> int \<times> real"
  MIB_TO_BYTE :: "real \<Rightarrow> int"
  mib_text :: "int \<Rightarrow> string"
  axidma_init :: "axidma_dev_t option"
  axidma_get_dma_tx :: "axidma_dev_t \<Rightarrow> int list"
  axidma_get_dma_rx :: "axidma_dev_t \<Rightarrow> int list"
  axidma0send :: "nat \<Rightarrow> 32 word"
  axidma0read :: "nat \<Rightarrow> int \<times> u8 list"
  pthread_create :: int
  close_ret :: int

text \<open>The Linux values of the two errno codes the file uses.\<close>

definition EINVAL :: int where
  "EINVAL = 22"

definition ENODEV :: int where
  "ENODEV = 19"

text \<open>Events first, then how the task goes on.\<close>

definition emit :: "event list \<Rightarrow> event list \<times> outcome \<Rightarrow> event list \<times> outcome" where
  "emit evs r = (evs @ fst r, snd r)"

subsection \<open>printf conversions\<close>

definition hex_digit :: "nat \<Rightarrow> char" where
  "hex_digit d = ''0123456789abcdef'' ! d"

text \<open>\<open>%02x\<close> of an \<open>unsigned char\<close>: two lower-case hexadecimal digits.\<close>

definition fmt_02x :: "u8 \<Rightarrow> string" where
  "fmt_02x b = [hex_digit (unat b div 16), hex_digit (unat b mod 16)]"

function dec_digits :: "nat \<Rightarrow> string" where
  "dec_digits n =
     (if n < 10 then [hex_digit n] else dec_digits (n div 10) @ [hex_digit (n mod 10)])"
  by pat_completeness auto
termination
  by (relation "measure (\<lambda>n. n)") auto

declare dec_digits.simps [simp del]

text \<open>\<open>%d\<close> of an \<open>int\<close>.\<close>

definition fmt_d :: "int \<Rightarrow> string" where
  "fmt_d i = (if i < 0 then CHR ''-'' # dec_digits (nat (- i)) else dec_digits (nat i))"

subsection \<open>\<open>print_usage\<close>\<close>

definition tab :: char where
  "tab = CHR 0x09"

definition usage_line :: string where
  "usage_line = ''Usage: axidma_transfer  [-t <DMA tx channel>] [-r <DMA rx channel>] [-s <Output file size> | -o <Output file size>].\<newline>''"

definition help_t :: string where
  "help_t = tab # ''-t <DMA tx channel>:'' @ tab # ''The device id of the DMA channel to use for transmitting the file. Default is to use the lowest numbered channel available.\<newline>''"

definition help_r :: string where
  "help_r = tab # ''-r <DMA rx channel>:'' @ tab # ''The device id of the DMA channel to use for receiving the data from the PL fabric. Default is to use the lowest numbered channel available.\<newline>''"

definition help_s :: string where
  "help_s = tab # ''-s <Output file size>:'' @ tab # ''The size of the output file in bytes. This is an integer value that must be at least the number of bytes received back. By default, this is the same as the size of the input file.\<newline>''"

definition help_o :: string where
  "help_o = tab # ''-o <Output file size>:'' @ tab # ''The size of the output file in Mibs. This is a floating-point value that must be at least the number of bytes received back. By default, this is the same the size of the input file.\<newline>''"

definition print_usage :: "bool \<Rightarrow> event list" where
  "print_usage help =
     (let stream = (if help then Stdout else Stderr) in
      Print stream usage_line #
      (if \<not> help then []
       else [Print stream help_t, Print stream help_r, Print stream help_s,
             Print stream help_o]))"

subsection \<open>\<open>parse_args\<close>\<close>

definition pair_msg :: string where
  "pair_msg = ''Error: Either both -t and -r must be specified, or neither.\<newline>''"

definition excl_msg :: string where
  "excl_msg = ''Error: Only one of -s and -o can be specified.\<newline>''"

definition too_many_msg :: string where
  "too_many_msg = ''Error: Too many command line arguments.\<newline>''"

text \<open>
  The \<open>while\<close> loop over the results of \<open>getopt\<close> (lines 98 to 152). The three
  out-parameters point into the caller's \<open>trans\<close>, so the loop carries \<open>trans\<close> and the two
  flags. The result has the events printed, \<open>Some\<close> of how the function left from inside
  the loop (or \<open>None\<close> when \<open>getopt\<close> returned \<open>-1\<close>), and the variables at that point.
\<close>

fun getopt_loop ::
  "env \<Rightarrow> (char \<times> string) list \<Rightarrow> dma_transfer \<Rightarrow> bool \<Rightarrow> bool \<Rightarrow>
     event list \<times> flow option \<times> dma_transfer \<times> bool \<times> bool" where
  "getopt_loop e [] trans' o_specified s_specified =
     ([], None, trans', o_specified, s_specified)"
| "getopt_loop e ((option, optarg) # rets) trans' o_specified s_specified =
     (if option = CHR ''t'' then
        (case parse_int e optarg of (rc, int_arg) \<Rightarrow>
           if rc < 0 then (print_usage False, Some (Return rc), trans', o_specified, s_specified)
           else getopt_loop e rets (trans'\<lparr>input_channel := int_arg\<rparr>) o_specified s_specified)
      else if option = CHR ''r'' then
        (case parse_int e optarg of (rc, int_arg) \<Rightarrow>
           if rc < 0 then (print_usage False, Some (Return rc), trans', o_specified, s_specified)
           else getopt_loop e rets (trans'\<lparr>output_channel := int_arg\<rparr>) o_specified s_specified)
      else if option = CHR ''s'' then
        (case parse_int e optarg of (rc, int_arg) \<Rightarrow>
           if rc < 0 then (print_usage False, Some (Return rc), trans', o_specified, s_specified)
           else getopt_loop e rets (trans'\<lparr>output_size := int_arg\<rparr>) o_specified True)
      else if option = CHR ''o'' then
        (case parse_double e optarg of (rc, double_arg) \<Rightarrow>
           if rc < 0 then (print_usage False, Some (Return rc), trans', o_specified, s_specified)
           else getopt_loop e rets (trans'\<lparr>output_size := MIB_TO_BYTE e double_arg\<rparr>)
                  True s_specified)
      else if option = CHR ''h'' then
        (print_usage True, Some (Exit 0), trans', o_specified, s_specified)
      else (print_usage False, Some (Return (- EINVAL)), trans', o_specified, s_specified))"

text \<open>
  \<open>parse_args\<close> (lines 82 to 187): the defaults, the loop, then the three checks in the
  order of the source. \<open>\<noteq>\<close> on the two comparisons is the C \<open>^\<close> on their truth values.
\<close>

definition parse_args :: "env \<Rightarrow> dma_transfer \<Rightarrow> event list \<times> flow \<times> dma_transfer" where
  "parse_args e trans0 =
     (case getopt_loop e (getopt_rets e)
             (trans0\<lparr>input_channel := - 1, output_channel := - 1, output_size := - 1\<rparr>)
             False False of
        (evs, Some fl, trans', o_specified, s_specified) \<Rightarrow> (evs, fl, trans')
      | (evs, None, trans', o_specified, s_specified) \<Rightarrow>
          if (input_channel trans' = - 1) \<noteq> (output_channel trans' = - 1) then
            (evs @ Print Stderr pair_msg # print_usage False, Return (- EINVAL), trans')
          else if s_specified \<and> o_specified then
            (evs @ Print Stderr excl_msg # print_usage False, Return (- EINVAL), trans')
          else if optind_end e < argc e - 2 then
            (evs @ Print Stderr too_many_msg # print_usage False, Return (- EINVAL), trans')
          else (evs, Return 0, trans'))"

subsection \<open>The staging buffers\<close>

text \<open>\<open>static unsigned char sbuffer[2048] = {0}\<close>, and \<open>rbuffer\<close> alike.\<close>

definition sbuffer0 :: "u8 list" where
  "sbuffer0 = replicate 2048 0"

text \<open>
  \<open>for (i = 0; i < 2000; i++) sbuffer[i] = i;\<close> The assignment converts the \<open>int\<close> to
  \<open>unsigned char\<close>, that is, reduces it modulo 256 (\<open>of_nat\<close> into \<open>8 word\<close>).
\<close>

function sbuffer_init_loop :: "nat \<Rightarrow> u8 list \<Rightarrow> u8 list" where
  "sbuffer_init_loop i sbuffer =
     (if i < 2000 then sbuffer_init_loop (i + 1) (sbuffer[i := of_nat i]) else sbuffer)"
  by pat_completeness auto
termination
  by (relation "measure (\<lambda>(i, sbuffer). 2000 - i)") auto

declare sbuffer_init_loop.simps [simp del]

definition sbuffer_init :: "u8 list \<Rightarrow> u8 list" where
  "sbuffer_init sbuffer = sbuffer_init_loop 0 sbuffer"

subsection \<open>Channel resolution\<close>

text \<open>
  Lines 352 to 375 of \<open>main\<close>, and the same lines 240 to 263 of \<open>rapidio_taks_rec\<close>: the two
  channel arrays are fetched, an empty one ends the task with \<open>-ENODEV\<close>, and the first
  entries are taken when both channel fields still hold \<open>-1\<close>. \<open>Inl rc\<close> is the jump to
  \<open>destroy_axidma\<close> with that \<open>rc\<close>.
\<close>

definition find_channels ::
  "env \<Rightarrow> axidma_dev_t \<Rightarrow> dma_transfer \<Rightarrow> event list \<times> (int + dma_transfer)" where
  "find_channels e axidma_dev trans' =
     (let tx_chans = axidma_get_dma_tx e axidma_dev in
      if int (length tx_chans) < 1 then
        ([Axidma_get_dma_tx axidma_dev,
          Print Stderr ''Error: No transmit channels were found.\<newline>''], Inl (- ENODEV))
      else
        let rx_chans = axidma_get_dma_rx e axidma_dev in
        if int (length rx_chans) < 1 then
          ([Axidma_get_dma_tx axidma_dev, Axidma_get_dma_rx axidma_dev,
            Print Stderr ''Error: No receive channels were found.\<newline>''], Inl (- ENODEV))
        else
          ([Axidma_get_dma_tx axidma_dev, Axidma_get_dma_rx axidma_dev],
           Inr (if input_channel trans' = - 1 \<and> output_channel trans' = - 1
                then trans'\<lparr>input_channel := tx_chans ! 0, output_channel := rx_chans ! 0\<rparr>
                else trans')))"

subsection \<open>The cleanup labels\<close>

text \<open>
  \<open>close_output: assert(close(trans.output_fd) == 0);\<close> then \<open>ret: return rc;\<close> (a build
  with assertions on: the failed assertion aborts the process).
\<close>

definition close_output :: "env \<Rightarrow> dma_transfer \<Rightarrow> int \<Rightarrow> event list \<times> outcome" where
  "close_output e trans' rc =
     ([Close (output_fd trans')], if close_ret e = 0 then Returned rc else Aborted)"

text \<open>\<open>destroy_axidma: axidma_destroy(axidma_dev);\<close> falling through to \<open>close_output\<close>.\<close>

definition destroy_axidma ::
  "env \<Rightarrow> axidma_dev_t \<Rightarrow> dma_transfer \<Rightarrow> int \<Rightarrow> event list \<times> outcome" where
  "destroy_axidma e axidma_dev trans' rc =
     emit [Axidma_destroy axidma_dev] (close_output e trans' rc)"

subsection \<open>\<open>main\<close>\<close>

text \<open>The five \<open>printf\<close>s of lines 378 to 382.\<close>

definition transfer_info :: "env \<Rightarrow> dma_transfer \<Rightarrow> event list" where
  "transfer_info e trans' =
     [Print Stdout ''AXI DMA File Transfer Info:\<newline>'',
      Print Stdout (tab # ''Transmit Channel: '' @ fmt_d (input_channel trans') @ ''\<newline>''),
      Print Stdout (tab # ''Receive Channel: '' @ fmt_d (output_channel trans') @ ''\<newline>''),
      Print Stdout (tab # ''Input Data Size: '' @ mib_text e (input_size trans') @ '' MiB\<newline>''),
      Print Stdout (tab # ''Output Data Size: '' @ mib_text e (output_size trans') @
                    '' MiB\<newline>\<newline>'')]"

text \<open>
  Lines 388 to 398: three sends of the same buffer with \<open>input_size\<close> 1000, 2000 and 1800.
  \<open>rc\<close> is assigned by each send and read by none of the statements in between; the value
  that leaves the sequence is the third send's.
\<close>

definition send_sequence ::
  "env \<Rightarrow> axidma_dev_t \<Rightarrow> dma_transfer \<Rightarrow> u8 list \<Rightarrow>
     event list \<times> 32 word \<times> dma_transfer" where
  "send_sequence e axidma_dev trans' sbuffer =
     (let trans1 = trans'\<lparr>input_size := 1000, output_size := 2048\<rparr>;
          rc1 = axidma0send e 0;
          trans2 = trans1\<lparr>input_size := 2000\<rparr>;
          rc2 = axidma0send e 1;
          trans3 = trans2\<lparr>input_size := 1800\<rparr>;
          rc3 = axidma0send e 2
      in ([Axidma0send axidma_dev trans1 sbuffer,
           Print Stdout ''success send axidma0\<newline>'',
           Sleep 5, Sleep 5,
           Axidma0send axidma_dev trans2 sbuffer,
           Sleep 5,
           Axidma0send axidma_dev trans3 sbuffer], rc3, trans3))"

text \<open>
  Lines 454 to 469: the thread is created after the sends; a failure returns at once.
  \<open>rc = (rc < 0) ? -rc : 0\<close> is computed on the 32-bit value: \<open>-\<close> on \<open>32 word\<close> is the
  two's complement negation, which gives \<open>INT_MIN\<close> back for \<open>INT_MIN\<close>, the one value
  whose negation does not fit an \<open>int\<close>.
\<close>

definition spawn_and_finish ::
  "env \<Rightarrow> axidma_dev_t \<Rightarrow> dma_transfer \<Rightarrow> 32 word \<Rightarrow> event list \<times> outcome" where
  "spawn_and_finish e axidma_dev trans' rc =
     (let error = pthread_create e in
      if error \<noteq> 0 then
        ([Pthread_create error, Print Stdout ''pthreadrx_create fail\<newline>''], Returned (- 1))
      else
        emit [Pthread_create error, Pthread_detach]
          (destroy_axidma e axidma_dev trans' (sint (if sint rc < 0 then - rc else 0))))"

text \<open>\<open>memset(&trans, 0, sizeof(trans))\<close>.\<close>

definition trans_zero :: dma_transfer where
  "trans_zero = \<lparr>input_channel = 0, output_channel = 0, input_size = 0, output_size = 0,
                 output_fd = 0\<rparr>"

definition main :: "env \<Rightarrow> event list \<times> outcome" where
  "main e =
     emit [Axidma_config, XDma_Out32]
       (let sbuffer = sbuffer_init sbuffer0 in
        case parse_args e trans_zero of
          (evs, Exit c, trans') \<Rightarrow> (evs, Exited c)
        | (evs, Return r, trans') \<Rightarrow>
            emit evs
              (if r < 0 then ([], Returned 1)
               else
                 case axidma_init e of
                   None \<Rightarrow>
                     emit [Axidma_init None,
                           Print Stderr ''Error: Failed to initialize the AXI DMA device.\<newline>'']
                       (close_output e trans' 1)
                 | Some axidma_dev \<Rightarrow>
                     emit [Axidma_init (Some axidma_dev),
                           Print Stdout ''Succeed to initialize the AXI DMA device.\<newline>'']
                       (case find_channels e axidma_dev trans' of
                          (evc, Inl rc) \<Rightarrow> emit evc (destroy_axidma e axidma_dev trans' rc)
                        | (evc, Inr trans') \<Rightarrow>
                            emit (evc @ transfer_info e trans')
                              (case send_sequence e axidma_dev trans' sbuffer of
                                 (evt, rc, trans') \<Rightarrow>
                                   emit evt (spawn_and_finish e axidma_dev trans' rc)))))"

subsection \<open>\<open>rapidio_taks_rec\<close>: the receive task\<close>

text \<open>One token of the dump: \<open>printf("0x%02x ", rbuffer[i])\<close>.\<close>

definition hex_token :: "u8 \<Rightarrow> string" where
  "hex_token b = ''0x'' @ fmt_02x b @ '' ''"

text \<open>
  The \<open>for\<close> loop of lines 268 to 275, from index \<open>i\<close> on. \<open>rbuffer\<close> is the array's
  contents; reading at or past its end is undefined in C and is \<open>None\<close> here.
\<close>

function dump_loop :: "nat \<Rightarrow> int \<Rightarrow> u8 list \<Rightarrow> event list option" where
  "dump_loop i rec_len rbuffer =
     (if int i < rec_len then
        (if i < length rbuffer then
           (case dump_loop (i + 1) rec_len rbuffer of
              None \<Rightarrow> None
            | Some evs \<Rightarrow>
                Some ((if i mod 16 = 0 then [Print Stdout ''\<newline>''] else []) @
                      Print Stdout (hex_token (rbuffer ! i)) # evs))
         else None)
      else Some [])"
  by pat_completeness auto
termination
  by (relation "measure (\<lambda>(i, rec_len, rbuffer). nat (rec_len - int i))") auto

declare dump_loop.simps [simp del]

text \<open>
  \<open>while(1)\<close> (lines 264 to 279). A pass issues the receive, prints the count with the
  format \<open>"\nrec_len = 0x%d\n"\<close> (the characters \<open>0x\<close> followed by the length in decimal)
  and runs the dump loop. The loop has no exit: the value of \<open>rec_len\<close> is not tested, and
  nothing breaks out of it. The last argument bounds how many passes are observed; the task
  is then still \<open>Running\<close>. \<open>k\<close> counts the receives; \<open>axidma0read e k\<close> is what the \<open>k\<close>-th
  returned, with the contents it left in \<open>rbuffer\<close>.
\<close>

fun receive_loop ::
  "env \<Rightarrow> axidma_dev_t \<Rightarrow> dma_transfer \<Rightarrow> nat \<Rightarrow> nat \<Rightarrow> event list \<times> outcome" where
  "receive_loop e axidma_dev trans' k 0 = ([], Running)"
| "receive_loop e axidma_dev trans' k (Suc n) =
     (case axidma0read e k of
        (rec_len, rbuffer) \<Rightarrow>
          emit [Axidma0read axidma_dev trans',
                Print Stdout (''\<newline>rec_len = 0x'' @ fmt_d rec_len @ ''\<newline>'')]
            (case dump_loop 0 rec_len rbuffer of
               None \<Rightarrow> ([], Undefined)
             | Some evs \<Rightarrow> emit evs (receive_loop e axidma_dev trans' (k + 1) n)))"

text \<open>
  The task (lines 190 to 293) repeats the set-up of \<open>main\<close> with calls of its own,
  \<open>axidma_init\<close> among them, and then enters the loop. \<open>n\<close> is the number of passes observed.
  The task starts after \<open>main\<close> has filled \<open>sbuffer\<close>, fills it once more, and does not
  read it. The statements after the loop cannot be reached.
\<close>

definition rapidio_taks_rec :: "env \<Rightarrow> nat \<Rightarrow> event list \<times> outcome" where
  "rapidio_taks_rec e n =
     emit [Axidma_config, XDma_Out32]
       (let sbuffer = sbuffer_init (sbuffer_init sbuffer0) in
        case parse_args e trans_zero of
          (evs, Exit c, trans') \<Rightarrow> (evs, Exited c)
        | (evs, Return r, trans') \<Rightarrow>
            emit evs
              (if r < 0 then ([], Returned 1)
               else
                 case axidma_init e of
                   None \<Rightarrow>
                     emit [Axidma_init None,
                           Print Stderr ''Error: Failed to initialize the AXI DMA device.\<newline>'']
                       (close_output e trans' 1)
                 | Some axidma_dev \<Rightarrow>
                     emit [Axidma_init (Some axidma_dev),
                           Print Stdout ''Succeed to initialize the AXI DMA device.\<newline>'']
                       (case find_channels e axidma_dev trans' of
                          (evc, Inl rc) \<Rightarrow> emit evc (destroy_axidma e axidma_dev trans' rc)
                        | (evc, Inr trans') \<Rightarrow>
                            emit evc (receive_loop e axidma_dev trans' 0 n))))"

text \<open>
  A run of the process: the trace of \<open>main\<close> and, when \<open>pthread_create\<close> succeeded, the trace
  of the receive task as far as it got (\<open>n\<close> passes of its loop) before the process ended.
  The thread is created with the argument \<open>NULL\<close>, so the task's \<open>argc\<close> is 0 and \<open>getopt\<close>
  returns \<open>-1\<close> on its first call there; the rest of what the outside gives the task is
  \<open>e_rec\<close>.
\<close>

definition process_run ::
  "env \<Rightarrow> env \<Rightarrow> nat \<Rightarrow> (event list \<times> outcome) \<times> (event list \<times> outcome) option" where
  "process_run e e_rec n =
     (let m = main e in
      (m, if Pthread_create 0 \<in> set (fst m)
          then Some (rapidio_taks_rec (e_rec\<lparr>argc := 0, getopt_rets := []\<rparr>) n)
          else None))"

subsection \<open>Reading a trace\<close>

fun sent :: "event \<Rightarrow> (axidma_dev_t \<times> dma_transfer \<times> u8 list) list" where
  "sent (Axidma0send d t b) = [(d, t, b)]"
| "sent _ = []"

text \<open>The sends of a trace, in order.\<close>

definition sends :: "event list \<Rightarrow> (axidma_dev_t \<times> dma_transfer \<times> u8 list) list" where
  "sends evs = concat (map sent evs)"

fun received :: "event \<Rightarrow> axidma_dev_t list" where
  "received (Axidma0read d t) = [d]"
| "received _ = []"

text \<open>The handles the receives of a trace were issued on.\<close>

definition reads :: "event list \<Rightarrow> axidma_dev_t list" where
  "reads evs = concat (map received evs)"

fun acquired :: "event \<Rightarrow> axidma_dev_t list" where
  "acquired (Axidma_init (Some d)) = [d]"
| "acquired _ = []"

text \<open>The handles \<open>axidma_init\<close> handed out in a trace.\<close>

definition handles :: "event list \<Rightarrow> axidma_dev_t list" where
  "handles evs = concat (map acquired evs)"

fun released :: "event \<Rightarrow> axidma_dev_t list" where
  "released (Axidma_destroy d) = [d]"
| "released _ = []"

text \<open>The handles \<open>axidma_destroy\<close> was called on.\<close>

definition destroys :: "event list \<Rightarrow> axidma_dev_t list" where
  "destroys evs = concat (map released evs)"

fun printed :: "stream \<Rightarrow> event \<Rightarrow> string" where
  "printed s (Print s' text) = (if s = s' then text else [])"
| "printed s _ = []"

text \<open>Everything a trace wrote to one of the two streams.\<close>

definition text_on :: "stream \<Rightarrow> event list \<Rightarrow> string" where
  "text_on s evs = concat (map (printed s) evs)"

subsection \<open>The dump as the specification words it\<close>

text \<open>A list cut into groups of \<open>n\<close>; the last group holds what is left.\<close>

function chunks :: "nat \<Rightarrow> 'a list \<Rightarrow> 'a list list" where
  "chunks n xs = (if n = 0 \<or> xs = [] then [] else take n xs # chunks n (drop n xs))"
  by pat_completeness auto
termination
  by (relation "measure (\<lambda>(n, xs). length xs)") auto

declare chunks.simps [simp del]

text \<open>
  The received bytes in lines of sixteen: each line is a newline followed by the tokens of
  its bytes.
\<close>

definition dump_text :: "u8 list \<Rightarrow> string" where
  "dump_text bytes =
     concat (map (\<lambda>line. ''\<newline>'' @ concat (map hex_token line)) (chunks 16 bytes))"

text \<open>
  The number a string of digits denotes in a base: what a reader of the output takes a
  numeral for.
\<close>

definition digit_value :: "char \<Rightarrow> nat" where
  "digit_value c = length (takeWhile (\<lambda>d. d \<noteq> c) ''0123456789abcdef'')"

definition numeral_value :: "nat \<Rightarrow> string \<Rightarrow> nat" where
  "numeral_value base s = foldl (\<lambda>a c. base * a + digit_value c) 0 s"

text \<open>
  The events of a run, those of \<open>main\<close> before those of the receive task. The projections
  below count and list events of a kind, for which the interleaving of the two tasks does
  not matter.
\<close>

definition run_events ::
  "(event list \<times> outcome) \<times> (event list \<times> outcome) option \<Rightarrow> event list" where
  "run_events r = fst (fst r) @ (case snd r of None \<Rightarrow> [] | Some t \<Rightarrow> fst t)"

subsection \<open>Reading a command line\<close>

text \<open>
  Vocabulary for statements about what \<open>getopt\<close> reported. An option is supplied when
  \<open>getopt\<close> returned its character at least once.
\<close>

definition supplied :: "char \<Rightarrow> (char \<times> string) list \<Rightarrow> bool" where
  "supplied c rets = (c \<in> fst ` set rets)"

text \<open>The argument of the last occurrence of an option.\<close>

fun last_arg :: "char \<Rightarrow> (char \<times> string) list \<Rightarrow> string" where
  "last_arg c [] = []"
| "last_arg c ((c', a) # rets) =
     (if supplied c rets then last_arg c rets else if c' = c then a else [])"

text \<open>
  The value of an option parses: \<open>parse_int\<close> (for \<open>-t\<close>, \<open>-r\<close>, \<open>-s\<close>) or \<open>parse_double\<close>
  (for \<open>-o\<close>) returns a code that is not negative.
\<close>

fun arg_parses :: "env \<Rightarrow> char \<times> string \<Rightarrow> bool" where
  "arg_parses e (c, a) =
     (if c = CHR ''t'' \<or> c = CHR ''r'' \<or> c = CHR ''s'' then 0 \<le> fst (parse_int e a)
      else if c = CHR ''o'' then 0 \<le> fst (parse_double e a)
      else True)"

text \<open>One of the four options that take a value.\<close>

definition recognised :: "char \<times> string \<Rightarrow> bool" where
  "recognised r =
     (fst r = CHR ''t'' \<or> fst r = CHR ''r'' \<or> fst r = CHR ''s'' \<or> fst r = CHR ''o'')"

text \<open>
  The channel a command line asks for with \<open>-t\<close> (or \<open>-r\<close>): the parsed value of the last
  occurrence, and \<open>-1\<close> when the option is not supplied.
\<close>

definition channel_given :: "env \<Rightarrow> char \<Rightarrow> (char \<times> string) list \<Rightarrow> int" where
  "channel_given e c rets =
     (if supplied c rets then snd (parse_int e (last_arg c rets)) else - 1)"

fun is_print :: "event \<Rightarrow> bool" where
  "is_print (Print s x) = True"
| "is_print _ = False"

subsection \<open>Example environments\<close>

text \<open>
  No options on the command line, a device with transmit channels 2 and 3 and receive
  channels 1 and 4, and every call succeeding.
\<close>

definition example_env :: env where
  "example_env =
     \<lparr>argc = 1, getopt_rets = [], optind_end = 1,
      parse_int = (\<lambda>s. (0, 0)), parse_double = (\<lambda>s. (0, 0)), MIB_TO_BYTE = (\<lambda>x. 0),
      mib_text = (\<lambda>n. ''0.0000''),
      axidma_init = Some 1,
      axidma_get_dma_tx = (\<lambda>d. [2, 3]), axidma_get_dma_rx = (\<lambda>d. [1, 4]),
      axidma0send = (\<lambda>k. 0), axidma0read = (\<lambda>k. (0, replicate 2048 0)),
      pthread_create = 0, close_ret = 0\<rparr>"

text \<open>\<open>-t -1\<close> alone; \<open>parse_int\<close> reads \<open>-1\<close> as the integer it denotes.\<close>

definition lone_t_env :: env where
  "lone_t_env =
     example_env\<lparr>argc := 3, getopt_rets := [(CHR ''t'', ''-1'')], optind_end := 3,
                  parse_int := (\<lambda>s. if s = ''-1'' then (0, - 1) else (0, 0))\<rparr>"

text \<open>\<open>-t 3\<close> alone.\<close>

definition lone_t3_env :: env where
  "lone_t3_env =
     example_env\<lparr>argc := 3, getopt_rets := [(CHR ''t'', ''3'')], optind_end := 3,
                  parse_int := (\<lambda>s. (0, 3))\<rparr>"

text \<open>\<open>-s 1 -o 1 -h\<close>.\<close>

definition help_last_env :: env where
  "help_last_env =
     example_env\<lparr>argc := 6,
                  getopt_rets := [(CHR ''s'', ''1''), (CHR ''o'', ''1''), (CHR ''h'', [])],
                  optind_end := 6\<rparr>"

text \<open>\<open>-o 1 -s 1\<close>.\<close>

definition both_sizes_env :: env where
  "both_sizes_env =
     example_env\<lparr>argc := 5, getopt_rets := [(CHR ''o'', ''1''), (CHR ''s'', ''1'')],
                  optind_end := 5\<rparr>"

text \<open>No options and three, respectively two, further tokens.\<close>

definition three_left_env :: env where
  "three_left_env = example_env\<lparr>argc := 4, optind_end := 1\<rparr>"

definition two_left_env :: env where
  "two_left_env = example_env\<lparr>argc := 3, optind_end := 1\<rparr>"

text \<open>\<open>-h a b c\<close>: three tokens are left when the option is read.\<close>

definition help_three_left_env :: env where
  "help_three_left_env =
     example_env\<lparr>argc := 5, getopt_rets := [(CHR ''h'', [])], optind_end := 2\<rparr>"

text \<open>\<open>pthread_create\<close> fails with code 11.\<close>

definition no_thread_env :: env where
  "no_thread_env = example_env\<lparr>pthread_create := 11\<rparr>"

text \<open>Every send fails with \<open>-5\<close>.\<close>

definition failing_send_env :: env where
  "failing_send_env = example_env\<lparr>axidma0send := (\<lambda>k. - 5)\<rparr>"

text \<open>What the receive task gets: its own call of \<open>axidma_init\<close> returns another handle.\<close>

definition receive_env :: env where
  "receive_env = example_env\<lparr>axidma_init := Some 2\<rparr>"

text \<open>\<open>-t -1 -r -1\<close>.\<close>

definition explicit_unset_env :: env where
  "explicit_unset_env =
     example_env\<lparr>argc := 5, getopt_rets := [(CHR ''t'', ''-1''), (CHR ''r'', ''-1'')],
                  optind_end := 5,
                  parse_int := (\<lambda>s. if s = ''-1'' then (0, - 1) else (0, 0))\<rparr>"

text \<open>Each receive returns 16 bytes; the buffer holds 0, 1, 2 and so on.\<close>

definition sixteen_env :: env where
  "sixteen_env = example_env\<lparr>axidma0read := (\<lambda>k. (16, map of_nat [0..<2048]))\<rparr>"

section \<open>Properties\<close>


subsection \<open>Traces and their projections\<close>

lemma sends_simps [simp]:
  "sends [] = []" "sends (x # xs) = sent x @ sends xs" "sends (xs @ ys) = sends xs @ sends ys"
  by (simp_all add: sends_def)

lemma reads_simps [simp]:
  "reads [] = []" "reads (x # xs) = received x @ reads xs"
  "reads (xs @ ys) = reads xs @ reads ys"
  by (simp_all add: reads_def)

lemma handles_simps [simp]:
  "handles [] = []" "handles (x # xs) = acquired x @ handles xs"
  "handles (xs @ ys) = handles xs @ handles ys"
  by (simp_all add: handles_def)

lemma destroys_simps [simp]:
  "destroys [] = []" "destroys (x # xs) = released x @ destroys xs"
  "destroys (xs @ ys) = destroys xs @ destroys ys"
  by (simp_all add: destroys_def)

lemma text_on_simps [simp]:
  "text_on s [] = []" "text_on s (x # xs) = printed s x @ text_on s xs"
  "text_on s (xs @ ys) = text_on s xs @ text_on s ys"
  by (simp_all add: text_on_def)

lemma print_usage_False: "print_usage False = [Print Stderr usage_line]"
  by (simp add: print_usage_def)

lemma prints_project:
  assumes "list_all is_print evs"
  shows "sends evs = []" and "reads evs = []" and "handles evs = []" and "destroys evs = []"
    and "Pthread_join \<notin> set evs" and "Pthread_create c \<notin> set evs"
    and "Pthread_detach \<notin> set evs"
proof -
  have "\<And>x. is_print x \<Longrightarrow>
          sent x = [] \<and> received x = [] \<and> acquired x = [] \<and> released x = []
          \<and> x \<noteq> Pthread_join \<and> x \<noteq> Pthread_create c \<and> x \<noteq> Pthread_detach"
    by (case_tac x) auto
  with assms show "sends evs = []" and "reads evs = []" and "handles evs = []"
    and "destroys evs = []" and "Pthread_join \<notin> set evs" and "Pthread_create c \<notin> set evs"
    and "Pthread_detach \<notin> set evs"
    by (induction evs) auto
qed

subsection \<open>The option loop\<close>

lemma supplied_Nil [simp]: "\<not> supplied c []"
  by (simp add: supplied_def)

lemma supplied_Cons [simp]: "supplied c ((c', a) # rets) = (c' = c \<or> supplied c rets)"
  by (auto simp: supplied_def)

text \<open>
  When every reported option is one of \<open>t\<close>, \<open>r\<close>, \<open>s\<close>, \<open>o\<close> and every value parses, the
  loop runs to the end, prints nothing, and leaves in each channel field the value of the
  last occurrence of its option.
\<close>

lemma getopt_loop_completes:
  "list_all (arg_parses e) rets \<Longrightarrow> list_all recognised rets \<Longrightarrow>
   \<exists>t'. getopt_loop e rets t o_sp s_sp =
          ([], None, t', o_sp \<or> supplied CHR ''o'' rets, s_sp \<or> supplied CHR ''s'' rets)
        \<and> input_channel t' =
            (if supplied CHR ''t'' rets then snd (parse_int e (last_arg CHR ''t'' rets))
             else input_channel t)
        \<and> output_channel t' =
            (if supplied CHR ''r'' rets then snd (parse_int e (last_arg CHR ''r'' rets))
             else output_channel t)
        \<and> input_size t' = input_size t \<and> output_fd t' = output_fd t"
proof (induction rets arbitrary: t o_sp s_sp)
  case Nil
  then show ?case by simp
next
  case (Cons r rets)
  obtain c a where r: "r = (c, a)" by (cases r)
  from Cons.prems have ps: "list_all (arg_parses e) rets" and rs: "list_all recognised rets"
    and pa: "arg_parses e (c, a)" and rc: "recognised (c, a)"
    by (simp_all add: r)
  note IH = Cons.IH [OF ps rs]
  from rc consider "c = CHR ''t''" | "c = CHR ''r''" | "c = CHR ''s''" | "c = CHR ''o''"
    by (auto simp: recognised_def)
  then show ?case
  proof cases
    case 1
    obtain rc' v where pi: "parse_int e a = (rc', v)" by (cases "parse_int e a")
    with pa 1 have "\<not> rc' < 0" by simp
    with IH [of "t\<lparr>input_channel := v\<rparr>" o_sp s_sp] pi 1 r show ?thesis
      by auto
  next
    case 2
    obtain rc' v where pi: "parse_int e a = (rc', v)" by (cases "parse_int e a")
    with pa 2 have "\<not> rc' < 0" by simp
    with IH [of "t\<lparr>output_channel := v\<rparr>" o_sp s_sp] pi 2 r show ?thesis
      by auto
  next
    case 3
    obtain rc' v where pi: "parse_int e a = (rc', v)" by (cases "parse_int e a")
    with pa 3 have "\<not> rc' < 0" by simp
    with IH [of "t\<lparr>output_size := v\<rparr>" o_sp True] pi 3 r show ?thesis
      by auto
  next
    case 4
    obtain rc' v where pd: "parse_double e a = (rc', v)" by (cases "parse_double e a")
    with pa 4 have "\<not> rc' < 0" by simp
    with IH [of "t\<lparr>output_size := MIB_TO_BYTE e v\<rparr>" True s_sp] pd 4 r show ?thesis
      by auto
  qed
qed

text \<open>
  Without \<open>-h\<close>, with every value parsing and some option not recognised, the loop leaves
  through the \<open>default\<close> branch.
\<close>

lemma getopt_loop_unrecognised:
  "list_all (arg_parses e) rets \<Longrightarrow> \<not> supplied CHR ''h'' rets \<Longrightarrow>
   \<not> list_all recognised rets \<Longrightarrow>
   \<exists>t' o' s'. getopt_loop e rets t o_sp s_sp =
          (print_usage False, Some (Return (- EINVAL)), t', o', s')"
proof (induction rets arbitrary: t o_sp s_sp)
  case Nil
  then show ?case by simp
next
  case (Cons r rets)
  obtain c a where r: "r = (c, a)" by (cases r)
  from Cons.prems have ps: "list_all (arg_parses e) rets"
    and nh: "\<not> supplied CHR ''h'' rets" "c \<noteq> CHR ''h''"
    and pa: "arg_parses e (c, a)"
    by (auto simp: r)
  show ?case
  proof (cases "recognised (c, a)")
    case False
    with nh r show ?thesis by (simp add: recognised_def)
  next
    case True
    with Cons.prems r have nr: "\<not> list_all recognised rets" by simp
    note IH = Cons.IH [OF ps nh(1) nr]
    obtain rc' v where pi: "parse_int e a = (rc', v)" by (cases "parse_int e a")
    obtain rd' w where pd: "parse_double e a = (rd', w)" by (cases "parse_double e a")
    from True consider "c = CHR ''t''" | "c = CHR ''r''" | "c = CHR ''s''" | "c = CHR ''o''"
      by (auto simp: recognised_def)
    then show ?thesis
    proof cases
      case 1
      with pa pi have "\<not> rc' < 0" by simp
      with IH [of "t\<lparr>input_channel := v\<rparr>" o_sp s_sp] pi 1 r show ?thesis by simp
    next
      case 2
      with pa pi have "\<not> rc' < 0" by simp
      with IH [of "t\<lparr>output_channel := v\<rparr>" o_sp s_sp] pi 2 r show ?thesis by simp
    next
      case 3
      with pa pi have "\<not> rc' < 0" by simp
      with IH [of "t\<lparr>output_size := v\<rparr>" o_sp True] pi 3 r show ?thesis by simp
    next
      case 4
      with pa pd have "\<not> rd' < 0" by simp
      with IH [of "t\<lparr>output_size := MIB_TO_BYTE e w\<rparr>" True s_sp] pd 4 r show ?thesis by simp
    qed
  qed
qed

lemma getopt_loop_defaults:
  assumes "list_all (arg_parses e) rets" and "list_all recognised rets"
  shows "\<exists>t'. getopt_loop e rets
              (t0\<lparr>input_channel := - 1, output_channel := - 1, output_size := - 1\<rparr>)
              False False =
            ([], None, t', supplied CHR ''o'' rets, supplied CHR ''s'' rets)
          \<and> input_channel t' = channel_given e CHR ''t'' rets
          \<and> output_channel t' = channel_given e CHR ''r'' rets"
  using getopt_loop_completes [OF assms,
      of "t0\<lparr>input_channel := - 1, output_channel := - 1, output_size := - 1\<rparr>" False False]
  by (auto simp: channel_given_def)

lemma getopt_loop_events:
  "getopt_loop e rets t o_sp s_sp = (evs, r) \<Longrightarrow>
   evs = [] \<or> evs = print_usage False \<or> evs = print_usage True"
proof (induction rets arbitrary: t o_sp s_sp)
  case Nil
  then show ?case by simp
next
  case (Cons x rets)
  obtain c a where x: "x = (c, a)" by (cases x)
  from Cons.prems Cons.IH show ?case
    unfolding x by (auto split: if_splits prod.splits)
qed

lemma parse_args_prints:
  assumes "parse_args e t0 = (evs, r)"
  shows "list_all is_print evs"
proof -
  obtain l f t o_sp s_sp where
    g: "getopt_loop e (getopt_rets e)
          (t0\<lparr>input_channel := - 1, output_channel := - 1, output_size := - 1\<rparr>) False False =
        (l, f, t, o_sp, s_sp)"
    by (metis prod_cases5)
  from getopt_loop_events [OF g] have "list_all is_print l"
    by (auto simp: print_usage_def)
  with assms g show ?thesis
    by (auto simp: parse_args_def print_usage_def split: option.splits if_splits)
qed

lemma parse_args_rejects:
  assumes "list_all (arg_parses e) (getopt_rets e)"
    and "\<not> supplied CHR ''h'' (getopt_rets e)"
    and "\<not> list_all recognised (getopt_rets e)
         \<or> (channel_given e CHR ''t'' (getopt_rets e) = - 1)
             \<noteq> (channel_given e CHR ''r'' (getopt_rets e) = - 1)
         \<or> (supplied CHR ''s'' (getopt_rets e) \<and> supplied CHR ''o'' (getopt_rets e))"
  shows "\<exists>t'. parse_args e t0 =
           ((if \<not> list_all recognised (getopt_rets e) then [Print Stderr usage_line]
             else if (channel_given e CHR ''t'' (getopt_rets e) = - 1)
                       \<noteq> (channel_given e CHR ''r'' (getopt_rets e) = - 1)
             then [Print Stderr pair_msg, Print Stderr usage_line]
             else [Print Stderr excl_msg, Print Stderr usage_line]),
            Return (- EINVAL), t')"
proof (cases "list_all recognised (getopt_rets e)")
  case False
  from getopt_loop_unrecognised [OF assms(1,2) False]
  obtain t' o' s' where
    "getopt_loop e (getopt_rets e)
       (t0\<lparr>input_channel := - 1, output_channel := - 1, output_size := - 1\<rparr>) False False =
     (print_usage False, Some (Return (- EINVAL)), t', o', s')"
    by blast
  with False show ?thesis
    by (simp add: parse_args_def print_usage_False)
next
  case True
  from getopt_loop_defaults [OF assms(1) True, of t0]
  obtain t' where
    l: "getopt_loop e (getopt_rets e)
       (t0\<lparr>input_channel := - 1, output_channel := - 1, output_size := - 1\<rparr>) False False =
     ([], None, t', supplied CHR ''o'' (getopt_rets e), supplied CHR ''s'' (getopt_rets e))"
    and i: "input_channel t' = channel_given e CHR ''t'' (getopt_rets e)"
    and u: "output_channel t' = channel_given e CHR ''r'' (getopt_rets e)"
    by blast
  from True assms(3) l i u show ?thesis
    by (auto simp: parse_args_def print_usage_False)
qed

text \<open>A return from inside the loop never carries the code 0.\<close>

lemma getopt_loop_leaves:
  "getopt_loop e rets t o_sp s_sp = (evs, Some fl, r) \<Longrightarrow> fl \<noteq> Return 0"
proof (induction rets arbitrary: t o_sp s_sp)
  case Nil
  then show ?case by simp
next
  case (Cons x rets)
  obtain c a where x: "x = (c, a)" by (cases x)
  from Cons.prems Cons.IH show ?case
    unfolding x by (auto simp: EINVAL_def split: if_splits prod.splits)
qed

lemma parse_args_accepts:
  assumes "fst (snd (parse_args e t0)) = Return 0"
  shows "argc e - optind_end e \<le> 2"
proof -
  obtain l f t o_sp s_sp where
    g: "getopt_loop e (getopt_rets e)
          (t0\<lparr>input_channel := - 1, output_channel := - 1, output_size := - 1\<rparr>) False False =
        (l, f, t, o_sp, s_sp)"
    by (metis prod_cases5)
  show ?thesis
  proof (cases f)
    case (Some fl)
    with g getopt_loop_leaves [of e "getopt_rets e" _ False False l fl "(t, o_sp, s_sp)"] assms
    show ?thesis
      by (simp add: parse_args_def)
  next
    case None
    with g assms show ?thesis
      by (simp add: parse_args_def EINVAL_def split: if_splits)
  qed
qed

lemma getopt_loop_send_irrelevant:
  "getopt_loop (e\<lparr>axidma0send := f\<rparr>) rets t o_sp s_sp = getopt_loop e rets t o_sp s_sp"
proof (induction rets arbitrary: t o_sp s_sp)
  case Nil
  then show ?case by simp
next
  case (Cons x rets)
  obtain c a where x: "x = (c, a)" by (cases x)
  from Cons.IH show ?case
    unfolding x by (simp split: prod.splits)
qed

lemma parse_args_send_irrelevant:
  "parse_args (e\<lparr>axidma0send := f\<rparr>) t0 = parse_args e t0"
  by (auto simp: parse_args_def getopt_loop_send_irrelevant split: prod.splits option.splits)

subsection \<open>Channel resolution\<close>

lemma find_channels_events:
  "find_channels e dev t = (evc, r) \<Longrightarrow>
   sends evc = [] \<and> reads evc = [] \<and> handles evc = [] \<and> destroys evc = []
   \<and> Pthread_join \<notin> set evc \<and> Pthread_create c \<notin> set evc \<and> Pthread_detach \<notin> set evc"
  by (auto simp: find_channels_def Let_def split: if_splits)

lemma find_channels_send_irrelevant:
  "find_channels (e\<lparr>axidma0send := f\<rparr>) dev t = find_channels e dev t"
  by (simp add: find_channels_def Let_def)

lemma find_channels_found:
  assumes "axidma_get_dma_tx e dev \<noteq> []" and "axidma_get_dma_rx e dev \<noteq> []"
  shows "\<exists>t2. find_channels e dev t =
           ([Axidma_get_dma_tx dev, Axidma_get_dma_rx dev], Inr t2)"
  using assms by (simp add: find_channels_def Let_def)

lemma transfer_info_events:
  "sends (transfer_info e t) = [] \<and> reads (transfer_info e t) = []
   \<and> handles (transfer_info e t) = [] \<and> destroys (transfer_info e t) = []
   \<and> Pthread_join \<notin> set (transfer_info e t) \<and> Pthread_create c \<notin> set (transfer_info e t)
   \<and> Pthread_detach \<notin> set (transfer_info e t)"
  by (simp add: transfer_info_def)

subsection \<open>The paths of \<open>main\<close>\<close>

lemma main_exit:
  "parse_args e trans_zero = (evs, Exit c, t) \<Longrightarrow>
   main e = (Axidma_config # XDma_Out32 # evs, Exited c)"
  by (simp add: main_def emit_def)

lemma main_parse_error:
  "parse_args e trans_zero = (evs, Return r, t) \<Longrightarrow> r < 0 \<Longrightarrow>
   main e = (Axidma_config # XDma_Out32 # evs, Returned 1)"
  by (simp add: main_def emit_def)

lemma main_init_failed:
  assumes "parse_args e trans_zero = (evs, Return r, t)" and "\<not> r < 0"
    and "axidma_init e = None"
  shows "main e =
     (Axidma_config # XDma_Out32 # evs @
      [Axidma_init None,
       Print Stderr ''Error: Failed to initialize the AXI DMA device.\<newline>'',
       Close (output_fd t)],
      if close_ret e = 0 then Returned 1 else Aborted)"
  using assms by (simp add: main_def emit_def close_output_def)

lemma main_no_channels:
  assumes "parse_args e trans_zero = (evs, Return r, t)" and "\<not> r < 0"
    and "axidma_init e = Some dev" and "find_channels e dev t = (evc, Inl rc)"
  shows "main e =
     (Axidma_config # XDma_Out32 # evs @
      [Axidma_init (Some dev),
       Print Stdout ''Succeed to initialize the AXI DMA device.\<newline>''] @ evc @
      [Axidma_destroy dev, Close (output_fd t)],
      if close_ret e = 0 then Returned rc else Aborted)"
  using assms by (simp add: main_def emit_def close_output_def destroy_axidma_def)

lemma main_transfers:
  assumes "parse_args e trans_zero = (evs, Return r, t)" and "\<not> r < 0"
    and "axidma_init e = Some dev" and "find_channels e dev t = (evc, Inr t2)"
  shows "main e =
     (Axidma_config # XDma_Out32 # evs @
      [Axidma_init (Some dev),
       Print Stdout ''Succeed to initialize the AXI DMA device.\<newline>''] @ evc @
      transfer_info e t2 @
      [Axidma0send dev (t2\<lparr>input_size := 1000, output_size := 2048\<rparr>) (sbuffer_init sbuffer0),
       Print Stdout ''success send axidma0\<newline>'', Sleep 5, Sleep 5,
       Axidma0send dev (t2\<lparr>input_size := 2000, output_size := 2048\<rparr>) (sbuffer_init sbuffer0),
       Sleep 5,
       Axidma0send dev (t2\<lparr>input_size := 1800, output_size := 2048\<rparr>) (sbuffer_init sbuffer0),
       Pthread_create (pthread_create e)] @
      (if pthread_create e \<noteq> 0 then [Print Stdout ''pthreadrx_create fail\<newline>'']
       else [Pthread_detach, Axidma_destroy dev, Close (output_fd t2)]),
      if pthread_create e \<noteq> 0 then Returned (- 1)
      else if close_ret e = 0
           then Returned (sint (if sint (axidma0send e 2) < 0 then - axidma0send e 2 else 0))
           else Aborted)"
  using assms
  by (simp add: main_def emit_def close_output_def destroy_axidma_def send_sequence_def
      spawn_and_finish_def Let_def)

lemma main_paths:
  obtains (exit) evs c t where "parse_args e trans_zero = (evs, Exit c, t)"
  | (rejected) evs r t where "parse_args e trans_zero = (evs, Return r, t)" "r < 0"
  | (init_failed) evs r t where "parse_args e trans_zero = (evs, Return r, t)" "\<not> r < 0"
      "axidma_init e = None"
  | (no_channels) evs r t dev evc rc where "parse_args e trans_zero = (evs, Return r, t)"
      "\<not> r < 0" "axidma_init e = Some dev" "find_channels e dev t = (evc, Inl rc)"
  | (transfers) evs r t dev evc t2 where "parse_args e trans_zero = (evs, Return r, t)"
      "\<not> r < 0" "axidma_init e = Some dev" "find_channels e dev t = (evc, Inr t2)"
proof -
  obtain evs fl t where p: "parse_args e trans_zero = (evs, fl, t)"
    by (metis prod_cases3)
  show thesis
  proof (cases fl)
    case (Exit c)
    with p exit show ?thesis by blast
  next
    case (Return r)
    show ?thesis
    proof (cases "r < 0")
      case True
      with p Return rejected show ?thesis by blast
    next
      case False
      show ?thesis
      proof (cases "axidma_init e")
        case None
        with p Return False init_failed show ?thesis by blast
      next
        case (Some dev)
        obtain evc res where f: "find_channels e dev t = (evc, res)"
          by (cases "find_channels e dev t")
        show ?thesis
        proof (cases res)
          case (Inl rc)
          with p Return False Some f no_channels show ?thesis by blast
        next
          case (Inr t2)
          with p Return False Some f transfers show ?thesis by blast
        qed
      qed
    qed
  qed
qed

text \<open>The negation of line 461 at the least \<open>int\<close>, and at an errno-style code.\<close>

lemma negated_send_result:
  "sint (- (- 2147483648 :: 32 word)) = - 2147483648" and "sint (- (- 5 :: 32 word)) = 5"
  by simp_all

lemma main_trace_send_irrelevant:
  "fst (main (e\<lparr>axidma0send := f\<rparr>)) = fst (main e)"
  by (simp add: main_def parse_args_send_irrelevant find_channels_send_irrelevant emit_def
      send_sequence_def spawn_and_finish_def destroy_axidma_def close_output_def
      transfer_info_def Let_def
      split: prod.splits flow.splits option.splits sum.splits)

lemma main_example:
  "main example_env =
     ([Axidma_config, XDma_Out32, Axidma_init (Some 1),
       Print Stdout ''Succeed to initialize the AXI DMA device.\<newline>'',
       Axidma_get_dma_tx 1, Axidma_get_dma_rx 1] @
      transfer_info example_env
        \<lparr>input_channel = 2, output_channel = 1, input_size = 0, output_size = - 1,
         output_fd = 0\<rparr> @
      [Axidma0send 1 \<lparr>input_channel = 2, output_channel = 1, input_size = 1000,
                      output_size = 2048, output_fd = 0\<rparr> (sbuffer_init sbuffer0),
       Print Stdout ''success send axidma0\<newline>'', Sleep 5, Sleep 5,
       Axidma0send 1 \<lparr>input_channel = 2, output_channel = 1, input_size = 2000,
                      output_size = 2048, output_fd = 0\<rparr> (sbuffer_init sbuffer0),
       Sleep 5,
       Axidma0send 1 \<lparr>input_channel = 2, output_channel = 1, input_size = 1800,
                      output_size = 2048, output_fd = 0\<rparr> (sbuffer_init sbuffer0),
       Pthread_create 0, Pthread_detach, Axidma_destroy 1, Close 0],
      Returned 0)"
proof -
  have p: "parse_args example_env trans_zero =
       ([], Return 0,
        \<lparr>input_channel = - 1, output_channel = - 1, input_size = 0, output_size = - 1,
         output_fd = 0\<rparr>)"
    by (simp add: parse_args_def example_env_def trans_zero_def)
  have i: "axidma_init example_env = Some 1"
    by (simp add: example_env_def)
  have f: "find_channels example_env 1
        \<lparr>input_channel = - 1, output_channel = - 1, input_size = 0, output_size = - 1,
         output_fd = 0\<rparr> =
       ([Axidma_get_dma_tx 1, Axidma_get_dma_rx 1],
        Inr \<lparr>input_channel = 2, output_channel = 1, input_size = 0, output_size = - 1,
         output_fd = 0\<rparr>)"
    by (simp add: find_channels_def example_env_def)
  have c: "pthread_create example_env = 0" "close_ret example_env = 0"
    "axidma0send example_env 2 = 0"
    by (simp_all add: example_env_def)
  show ?thesis
    using main_transfers [OF p _ i f] by (simp add: c)
qed

lemma main_sends:
  "sends (fst (main e)) = []
   \<or> (\<exists>dev t2. axidma_init e = Some dev \<and> sends (fst (main e)) =
        [(dev, t2\<lparr>input_size := 1000, output_size := 2048\<rparr>, sbuffer_init sbuffer0),
         (dev, t2\<lparr>input_size := 2000, output_size := 2048\<rparr>, sbuffer_init sbuffer0),
         (dev, t2\<lparr>input_size := 1800, output_size := 2048\<rparr>, sbuffer_init sbuffer0)])"
proof (cases e rule: main_paths)
  case (exit evs c t)
  from parse_args_prints [OF exit] main_exit [OF exit] show ?thesis
    by (simp add: prints_project)
next
  case (rejected evs r t)
  from parse_args_prints [OF rejected(1)] main_parse_error [OF rejected] show ?thesis
    by (simp add: prints_project)
next
  case (init_failed evs r t)
  from parse_args_prints [OF init_failed(1)] main_init_failed [OF init_failed] show ?thesis
    by (simp add: prints_project)
next
  case (no_channels evs r t dev evc rc)
  from parse_args_prints [OF no_channels(1)] main_no_channels [OF no_channels]
    find_channels_events [OF no_channels(4)]
  show ?thesis
    by (simp add: prints_project)
next
  case (transfers evs r t dev evc t2)
  from parse_args_prints [OF transfers(1)] main_transfers [OF transfers]
    find_channels_events [OF transfers(4)] transfers(3)
  show ?thesis
    by (intro disjI2 exI [of _ dev] exI [of _ t2])
       (simp add: prints_project transfer_info_events)
qed

lemma main_no_join: "Pthread_join \<notin> set (fst (main e))"
proof (cases e rule: main_paths)
  case (exit evs c t)
  from parse_args_prints [OF exit] main_exit [OF exit] show ?thesis
    by (simp add: prints_project)
next
  case (rejected evs r t)
  from parse_args_prints [OF rejected(1)] main_parse_error [OF rejected] show ?thesis
    by (simp add: prints_project)
next
  case (init_failed evs r t)
  from parse_args_prints [OF init_failed(1)] main_init_failed [OF init_failed] show ?thesis
    by (simp add: prints_project)
next
  case (no_channels evs r t dev evc rc)
  from parse_args_prints [OF no_channels(1)] main_no_channels [OF no_channels]
    find_channels_events [OF no_channels(4)]
  show ?thesis
    by (simp add: prints_project)
next
  case (transfers evs r t dev evc t2)
  from parse_args_prints [OF transfers(1)] main_transfers [OF transfers]
    find_channels_events [OF transfers(4)]
  show ?thesis
    by (simp add: prints_project transfer_info_events)
qed

lemma main_spawns:
  assumes "Pthread_create c \<in> set (fst (main e))"
  shows "\<exists>pre dev fd.
           c = pthread_create e \<and>
           fst (main e) =
             pre @ Pthread_create c #
               (if c = 0 then [Pthread_detach, Axidma_destroy dev, Close fd]
                else [Print Stdout ''pthreadrx_create fail\<newline>''])
           \<and> map (\<lambda>x. input_size (fst (snd x))) (sends pre) = [1000, 2000, 1800]
           \<and> Pthread_create c \<notin> set pre
           \<and> snd (main e) =
               (if c \<noteq> 0 then Returned (- 1)
                else if close_ret e = 0
                     then Returned
                            (sint (if sint (axidma0send e 2) < 0 then - axidma0send e 2 else 0))
                     else Aborted)"
proof (cases e rule: main_paths)
  case (exit evs c' t)
  from parse_args_prints [OF exit] main_exit [OF exit] assms show ?thesis
    by (simp add: prints_project)
next
  case (rejected evs r t)
  from parse_args_prints [OF rejected(1)] main_parse_error [OF rejected] assms show ?thesis
    by (simp add: prints_project)
next
  case (init_failed evs r t)
  from parse_args_prints [OF init_failed(1)] main_init_failed [OF init_failed] assms
  show ?thesis
    by (simp add: prints_project)
next
  case (no_channels evs r t dev evc rc)
  from parse_args_prints [OF no_channels(1)] main_no_channels [OF no_channels]
    find_channels_events [OF no_channels(4)] assms
  show ?thesis
    by (simp add: prints_project)
next
  case (transfers evs r t dev evc t2)
  note m = main_transfers [OF transfers]
  note q = parse_args_prints [OF transfers(1)] find_channels_events [OF transfers(4)]
  from m q assms have c: "c = pthread_create e"
    by (simp add: prints_project transfer_info_events split: if_splits)
  let ?pre = "Axidma_config # XDma_Out32 # evs @
      [Axidma_init (Some dev),
       Print Stdout ''Succeed to initialize the AXI DMA device.\<newline>''] @ evc @
      transfer_info e t2 @
      [Axidma0send dev (t2\<lparr>input_size := 1000, output_size := 2048\<rparr>) (sbuffer_init sbuffer0),
       Print Stdout ''success send axidma0\<newline>'', Sleep 5, Sleep 5,
       Axidma0send dev (t2\<lparr>input_size := 2000, output_size := 2048\<rparr>) (sbuffer_init sbuffer0),
       Sleep 5,
       Axidma0send dev (t2\<lparr>input_size := 1800, output_size := 2048\<rparr>) (sbuffer_init sbuffer0)]"
  from m q c show ?thesis
    by (intro exI [of _ ?pre] exI [of _ dev] exI [of _ "output_fd t2"])
       (simp add: prints_project transfer_info_events)
qed

lemma main_detaches:
  "Pthread_detach \<in> set (fst (main e)) \<longleftrightarrow> Pthread_create 0 \<in> set (fst (main e))"
proof (cases e rule: main_paths)
  case (exit evs c t)
  from parse_args_prints [OF exit] main_exit [OF exit] show ?thesis
    by (simp add: prints_project)
next
  case (rejected evs r t)
  from parse_args_prints [OF rejected(1)] main_parse_error [OF rejected] show ?thesis
    by (simp add: prints_project)
next
  case (init_failed evs r t)
  from parse_args_prints [OF init_failed(1)] main_init_failed [OF init_failed] show ?thesis
    by (simp add: prints_project)
next
  case (no_channels evs r t dev evc rc)
  from parse_args_prints [OF no_channels(1)] main_no_channels [OF no_channels]
    find_channels_events [OF no_channels(4)]
  show ?thesis
    by (simp add: prints_project)
next
  case (transfers evs r t dev evc t2)
  from parse_args_prints [OF transfers(1)] main_transfers [OF transfers]
    find_channels_events [OF transfers(4)]
  show ?thesis
    by (simp add: prints_project transfer_info_events)
qed

lemma main_reaches_create:
  assumes "parse_args e trans_zero = (evs, Return r, t)" and "\<not> r < 0"
    and "axidma_init e = Some dev"
    and "axidma_get_dma_tx e dev \<noteq> []" and "axidma_get_dma_rx e dev \<noteq> []"
  shows "Pthread_create (pthread_create e) \<in> set (fst (main e))"
proof -
  from find_channels_found [OF assms(4,5), of t] obtain t2 where
    f: "find_channels e dev t = ([Axidma_get_dma_tx dev, Axidma_get_dma_rx dev], Inr t2)"
    by blast
  from main_transfers [OF assms(1,2,3) f] show ?thesis
    by simp
qed

subsection \<open>The send buffer\<close>

lemma sbuffer_init_loop_length [simp]: "length (sbuffer_init_loop i b) = length b"
proof (induction i b rule: sbuffer_init_loop.induct)
  case (1 i b)
  then show ?case
    by (subst sbuffer_init_loop.simps) simp
qed

lemma sbuffer_init_loop_nth:
  "j < length b \<Longrightarrow>
   sbuffer_init_loop i b ! j = (if i \<le> j \<and> j < 2000 then of_nat j else b ! j)"
proof (induction i b rule: sbuffer_init_loop.induct)
  case (1 i b)
  show ?case
  proof (cases "i < 2000")
    case True
    from 1 True have
      "sbuffer_init_loop (i + 1) (b[i := of_nat i]) ! j =
         (if i + 1 \<le> j \<and> j < 2000 then of_nat j else b[i := of_nat i] ! j)"
      by simp
    moreover have "i \<le> j \<and> \<not> i + 1 \<le> j \<longleftrightarrow> j = i"
      by arith
    ultimately show ?thesis
      using True 1(2) by (subst sbuffer_init_loop.simps) (auto simp: nth_list_update)
  next
    case False
    then show ?thesis
      by (subst sbuffer_init_loop.simps) auto
  qed
qed

lemma sbuffer_init_pattern:
  "i < 2000 \<Longrightarrow> unat (sbuffer_init sbuffer0 ! i) = i mod 256"
  by (simp add: sbuffer_init_def sbuffer0_def sbuffer_init_loop_nth unat_of_nat)

lemma sbuffer_init_idempotent: "sbuffer_init (sbuffer_init sbuffer0) = sbuffer_init sbuffer0"
  by (rule nth_equalityI)
     (simp_all add: sbuffer_init_def sbuffer0_def sbuffer_init_loop_nth)

subsection \<open>Groups of sixteen\<close>

lemma chunks_Nil [simp]: "chunks n [] = []"
  by (simp add: chunks.simps)

lemma concat_chunks: "0 < n \<Longrightarrow> concat (chunks n xs) = xs"
proof (induction n xs rule: chunks.induct)
  case (1 n xs)
  then show ?case
    by (subst chunks.simps) auto
qed

lemma chunks_lengths:
  "l \<in> set (chunks n xs) \<Longrightarrow> l \<noteq> [] \<and> length l \<le> n"
proof (induction n xs rule: chunks.induct)
  case (1 n xs)
  from "1.prems" have ne: "\<not> (n = 0 \<or> xs = [])"
    by (subst (asm) chunks.simps) (auto split: if_splits)
  with "1.prems" have "l = take n xs \<or> l \<in> set (chunks n (drop n xs))"
    by (subst (asm) chunks.simps) auto
  with "1.IH" ne show ?case
    by auto
qed

lemma chunks_full:
  "l \<in> set (butlast (chunks n xs)) \<Longrightarrow> length l = n"
proof (induction n xs rule: chunks.induct)
  case (1 n xs)
  from "1.prems" have ne: "\<not> (n = 0 \<or> xs = [])"
    by (subst (asm) chunks.simps) (auto split: if_splits)
  then have c: "chunks n xs = take n xs # chunks n (drop n xs)"
    by (subst chunks.simps) simp
  show ?case
  proof (cases "chunks n (drop n xs) = []")
    case True
    with c "1.prems" show ?thesis by simp
  next
    case False
    then have "drop n xs \<noteq> []"
      by auto
    then have "n \<le> length xs" by simp
    with c False "1.prems" "1.IH" [OF ne] show ?thesis
      by auto
  qed
qed

lemma map_nth_fun: "map (\<lambda>j. f (xs ! j)) [0..<length xs] = map f xs"
proof -
  have "map (\<lambda>j. f (xs ! j)) [0..<length xs] = map f (map (\<lambda>j. xs ! j) [0..<length xs])"
    by (simp only: map_map comp_def)
  then show ?thesis
    by (simp only: map_nth)
qed

lemma first_line:
  assumes "xs \<noteq> []" and "length xs \<le> n"
  shows "concat (map (\<lambda>j. (if j mod n = 0 then nl else []) @ f (xs ! j)) [0..<length xs]) =
         nl @ concat (map f xs)"
proof -
  obtain x xs' where xs: "xs = x # xs'"
    using assms(1) by (cases xs) auto
  have u: "[0..<length xs] = 0 # map Suc [0..<length xs']"
    unfolding xs by (simp only: length_Cons upt_conv_Cons zero_less_Suc map_Suc_upt)
  have "map (\<lambda>j. (if j mod n = 0 then nl else []) @ f (xs ! j))
           (map Suc [0..<length xs']) = map (\<lambda>j. f (xs' ! j)) [0..<length xs']"
    using assms(2) by (auto simp: xs)
  also have "\<dots> = map f xs'"
    by (rule map_nth_fun)
  finally show ?thesis
    unfolding u by (simp add: xs)
qed

text \<open>
  Opening a line at every index divisible by \<open>n\<close> is the same as cutting the list into
  groups of \<open>n\<close> and opening a line for each group.
\<close>

lemma lines_indexed:
  "0 < n \<Longrightarrow>
   concat (map (\<lambda>j. (if j mod n = 0 then nl else []) @ f (xs ! j)) [0..<length xs]) =
   concat (map (\<lambda>line. nl @ concat (map f line)) (chunks n xs))"
proof (induction n xs rule: chunks.induct)
  case (1 n xs)
  let ?g = "\<lambda>ys j. (if j mod n = 0 then nl else []) @ f (ys ! j)"
  show ?case
  proof (cases "xs = []")
    case True
    then show ?thesis by simp
  next
    case False
    with "1.prems" have c: "chunks n xs = take n xs # chunks n (drop n xs)"
      by (subst chunks.simps) simp
    show ?thesis
    proof (cases "length xs \<le> n")
      case True
      with c have "chunks n xs = [xs]" by simp
      with first_line [OF False True, of nl f] show ?thesis by simp
    next
      case long: False
      let ?a = "take n xs" and ?b = "drop n xs"
      from long have la: "length ?a = n" and lb: "length ?b = length xs - n"
        by simp_all
      from long have "length xs = n + length ?b"
        by simp
      then have "[0..<length xs] = [0..<n] @ [n..<n + length ?b]"
        by (simp only: upt_add_eq_append [OF le0])
      then have split: "[0..<length xs] = [0..<n] @ map (\<lambda>i. i + n) [0..<length ?b]"
        by (simp only: map_add_upt add.commute)
      have p1: "map (?g xs) [0..<n] = map (?g ?a) [0..<length ?a]"
        unfolding la by (rule map_cong) simp_all
      have p2: "map (?g xs) (map (\<lambda>i. i + n) [0..<length ?b]) = map (?g ?b) [0..<length ?b]"
        by (simp add: add.commute)
      from "1.prems" False have ne: "\<not> (n = 0 \<or> xs = [])" by simp
      from "1.prems" have a_ne: "?a \<noteq> []" using False by simp
      have "concat (map (?g xs) [0..<length xs]) =
              concat (map (?g ?a) [0..<length ?a]) @ concat (map (?g ?b) [0..<length ?b])"
        unfolding split by (simp only: map_append concat_append p1 p2)
      also have "concat (map (?g ?a) [0..<length ?a]) = nl @ concat (map f ?a)"
        by (rule first_line [OF a_ne]) simp
      also have "concat (map (?g ?b) [0..<length ?b]) =
                   concat (map (\<lambda>line. nl @ concat (map f line)) (chunks n ?b))"
        by (rule "1.IH" [OF ne "1.prems"])
      finally show ?thesis
        by (simp add: c)
    qed
  qed
qed

subsection \<open>The receive loop\<close>

lemma fmt_02x_length [simp]: "length (fmt_02x b) = 2"
  by (simp add: fmt_02x_def)

lemma hex_digit_range: "d < 16 \<Longrightarrow> hex_digit d \<in> set ''0123456789abcdef''"
  unfolding hex_digit_def by (rule nth_mem) simp

text \<open>A token is \<open>0x\<close>, two hexadecimal digits and a blank.\<close>

lemma hex_token_shape:
  "\<exists>h l. hex_token b = [CHR ''0'', CHR ''x'', h, l, CHR '' '']
         \<and> h \<in> set ''0123456789abcdef'' \<and> l \<in> set ''0123456789abcdef''"
proof (intro exI conjI)
  show "hex_token b =
          [CHR ''0'', CHR ''x'', hex_digit (unat b div 16), hex_digit (unat b mod 16), CHR '' '']"
    by (simp add: hex_token_def fmt_02x_def)
  have "unat b < 256"
    using unsigned_less [of b] by simp
  then show "hex_digit (unat b div 16) \<in> set ''0123456789abcdef''"
    by (intro hex_digit_range) simp
  show "hex_digit (unat b mod 16) \<in> set ''0123456789abcdef''"
    by (intro hex_digit_range) simp
qed

text \<open>The dump loop in closed form.\<close>

lemma dump_loop_closed:
  "rec_len \<le> int (length rbuffer) \<Longrightarrow>
   dump_loop i rec_len rbuffer =
     Some (concat (map (\<lambda>j. (if j mod 16 = 0 then [Print Stdout ''\<newline>''] else []) @
                              [Print Stdout (hex_token (rbuffer ! j))])
                   [i..<nat rec_len]))"
proof (induction i rec_len rbuffer rule: dump_loop.induct)
  case (1 i rec_len rbuffer)
  show ?case
  proof (cases "int i < rec_len")
    case False
    then show ?thesis
      by (subst dump_loop.simps) simp
  next
    case True
    with "1.prems" have l: "i < length rbuffer" and u: "i < nat rec_len"
      by simp_all
    from u have "[i..<nat rec_len] = i # [i + 1..<nat rec_len]"
      by (simp add: upt_conv_Cons)
    with "1.IH" [OF True l "1.prems"] True l show ?thesis
      by (subst dump_loop.simps) simp
  qed
qed

lemma dump_loop_prints:
  "dump_loop i rec_len rbuffer = Some evs \<Longrightarrow> list_all is_print evs"
proof (induction i rec_len rbuffer arbitrary: evs rule: dump_loop.induct)
  case (1 i rec_len rbuffer)
  from "1.prems" "1.IH" show ?case
    by (subst (asm) dump_loop.simps) (auto split: if_splits option.splits)
qed

lemma text_on_indexed:
  "text_on Stdout
     (concat (map (\<lambda>j. (if P j then [Print Stdout a] else []) @ [Print Stdout (f j)]) js)) =
   concat (map (\<lambda>j. (if P j then a else []) @ f j) js)"
  by (induction js) auto

lemma emit_emit: "emit xs (emit ys r) = emit (xs @ ys) r"
  by (simp add: emit_def)

lemma dump_loop_text:
  assumes "N \<le> int (length rbuffer)"
  shows "\<exists>evs. dump_loop 0 N rbuffer = Some evs
           \<and> text_on Stdout evs = dump_text (take (nat N) rbuffer)"
proof -
  let ?xs = "take (nat N) rbuffer"
  let ?evs = "concat (map (\<lambda>j. (if j mod 16 = 0 then [Print Stdout ''\<newline>''] else []) @
                              [Print Stdout (hex_token (rbuffer ! j))]) [0..<nat N])"
  from assms have len: "length ?xs = nat N"
    by simp
  have d: "dump_loop 0 N rbuffer = Some ?evs"
    by (rule dump_loop_closed [OF assms])
  have "text_on Stdout ?evs =
          concat (map (\<lambda>j. (if j mod 16 = 0 then ''\<newline>'' else []) @ hex_token (rbuffer ! j))
                    [0..<nat N])"
    by (rule text_on_indexed)
  also have "\<dots> = concat (map (\<lambda>j. (if j mod 16 = 0 then ''\<newline>'' else []) @ hex_token (?xs ! j))
                    [0..<length ?xs])"
    unfolding len by (rule arg_cong [where f = concat], rule map_cong) simp_all
  also have "\<dots> = dump_text ?xs"
    unfolding dump_text_def by (rule lines_indexed) simp
  finally have t: "text_on Stdout ?evs = dump_text ?xs" .
  show ?thesis
    by (simp add: d t)
qed

text \<open>\<open>%d\<close> prints the decimal numeral of its argument.\<close>

lemma digit_value_hex_digit: "d < 16 \<Longrightarrow> digit_value (hex_digit d) = d"
proof -
  have "\<forall>d \<in> set [0..<16]. digit_value (hex_digit d) = d"
    by code_simp
  then show "d < 16 \<Longrightarrow> digit_value (hex_digit d) = d"
    by simp
qed

lemma numeral_value_snoc:
  "numeral_value base (s @ [c]) = base * numeral_value base s + digit_value c"
  by (simp add: numeral_value_def)

lemma numeral_value_dec_digits: "numeral_value 10 (dec_digits n) = n"
proof (induction n rule: dec_digits.induct)
  case (1 n)
  show ?case
  proof (cases "n < 10")
    case True
    then show ?thesis
      by (subst dec_digits.simps) (simp add: numeral_value_def digit_value_hex_digit)
  next
    case False
    with 1 show ?thesis
      by (subst dec_digits.simps) (simp add: numeral_value_snoc digit_value_hex_digit)
  qed
qed

lemma fmt_d_denotes: "0 \<le> N \<Longrightarrow> numeral_value 10 (fmt_d N) = nat N"
  by (simp add: fmt_d_def numeral_value_dec_digits)

lemma receive_loop_events:
  "sends (fst (receive_loop e dev t k n)) = []
   \<and> handles (fst (receive_loop e dev t k n)) = []
   \<and> destroys (fst (receive_loop e dev t k n)) = []
   \<and> set (reads (fst (receive_loop e dev t k n))) \<subseteq> {dev}"
proof (induction n arbitrary: k)
  case 0
  then show ?case by simp
next
  case (Suc n)
  obtain N b where a: "axidma0read e k = (N, b)"
    by (cases "axidma0read e k")
  show ?case
  proof (cases "dump_loop 0 N b")
    case None
    with a show ?thesis by (simp add: emit_def)
  next
    case (Some evs)
    from dump_loop_prints [OF Some] a Some Suc.IH [of "k + 1"] show ?thesis
      by (simp add: emit_def prints_project)
  qed
qed

lemma receive_loop_running:
  "snd (receive_loop e dev t k n) = Running \<or> snd (receive_loop e dev t k n) = Undefined"
proof (induction n arbitrary: k)
  case 0
  then show ?case by simp
next
  case (Suc n)
  from Suc.IH [of "k + 1"] show ?case
    by (auto simp: emit_def split: prod.splits option.splits)
qed

subsection \<open>The paths of \<open>rapidio_taks_rec\<close>\<close>

lemma rec_paths:
  obtains (exit) evs c t where "parse_args e trans_zero = (evs, Exit c, t)"
      "rapidio_taks_rec e n = (Axidma_config # XDma_Out32 # evs, Exited c)"
  | (rejected) evs r t where "parse_args e trans_zero = (evs, Return r, t)" "r < 0"
      "rapidio_taks_rec e n = (Axidma_config # XDma_Out32 # evs, Returned 1)"
  | (init_failed) evs r t where "parse_args e trans_zero = (evs, Return r, t)"
      "axidma_init e = None"
      "rapidio_taks_rec e n =
         (Axidma_config # XDma_Out32 # evs @
          [Axidma_init None,
           Print Stderr ''Error: Failed to initialize the AXI DMA device.\<newline>'',
           Close (output_fd t)],
          if close_ret e = 0 then Returned 1 else Aborted)"
  | (no_channels) evs r t dev evc rc where "parse_args e trans_zero = (evs, Return r, t)"
      "axidma_init e = Some dev" "find_channels e dev t = (evc, Inl rc)"
      "rapidio_taks_rec e n =
         (Axidma_config # XDma_Out32 # evs @
          [Axidma_init (Some dev),
           Print Stdout ''Succeed to initialize the AXI DMA device.\<newline>''] @ evc @
          [Axidma_destroy dev, Close (output_fd t)],
          if close_ret e = 0 then Returned rc else Aborted)"
  | (receiving) evs r t dev evc t2 where "parse_args e trans_zero = (evs, Return r, t)"
      "axidma_init e = Some dev" "find_channels e dev t = (evc, Inr t2)"
      "rapidio_taks_rec e n =
         (Axidma_config # XDma_Out32 # evs @
          [Axidma_init (Some dev),
           Print Stdout ''Succeed to initialize the AXI DMA device.\<newline>''] @ evc @
          fst (receive_loop e dev t2 0 n),
          snd (receive_loop e dev t2 0 n))"
proof -
  obtain evs fl t where p: "parse_args e trans_zero = (evs, fl, t)"
    by (metis prod_cases3)
  show thesis
  proof (cases fl)
    case (Exit c)
    with p exit show ?thesis
      by (simp add: rapidio_taks_rec_def emit_def)
  next
    case (Return r)
    show ?thesis
    proof (cases "r < 0")
      case True
      with p Return rejected show ?thesis
        by (simp add: rapidio_taks_rec_def emit_def)
    next
      case False
      show ?thesis
      proof (cases "axidma_init e")
        case None
        with p Return False init_failed show ?thesis
          by (simp add: rapidio_taks_rec_def emit_def close_output_def)
      next
        case (Some dev)
        obtain evc res where f: "find_channels e dev t = (evc, res)"
          by (cases "find_channels e dev t")
        show ?thesis
        proof (cases res)
          case (Inl rc)
          with p Return False Some f no_channels show ?thesis
            by (simp add: rapidio_taks_rec_def emit_def close_output_def destroy_axidma_def)
        next
          case (Inr t2)
          with p Return False Some f receiving show ?thesis
            by (simp add: rapidio_taks_rec_def emit_def)
        qed
      qed
    qed
  qed
qed

lemma rec_handles:
  "handles (fst (rapidio_taks_rec e n)) = [] \<and> reads (fst (rapidio_taks_rec e n)) = []
   \<or> (\<exists>dev. axidma_init e = Some dev \<and> handles (fst (rapidio_taks_rec e n)) = [dev]
         \<and> set (reads (fst (rapidio_taks_rec e n))) \<subseteq> {dev})"
proof (cases e n rule: rec_paths)
  case (exit evs c t)
  from parse_args_prints [OF exit(1)] exit(2) show ?thesis
    by (simp add: prints_project)
next
  case (rejected evs r t)
  from parse_args_prints [OF rejected(1)] rejected(3) show ?thesis
    by (simp add: prints_project)
next
  case (init_failed evs r t)
  from parse_args_prints [OF init_failed(1)] init_failed(3) show ?thesis
    by (simp add: prints_project)
next
  case (no_channels evs r t dev evc rc)
  from parse_args_prints [OF no_channels(1)] no_channels(2,4)
    find_channels_events [OF no_channels(3)]
  show ?thesis
    by (simp add: prints_project)
next
  case (receiving evs r t dev evc t2)
  from parse_args_prints [OF receiving(1)] receiving(2,4)
    find_channels_events [OF receiving(3)] receive_loop_events [of e dev t2 0 n]
  show ?thesis
    by (simp add: prints_project)
qed

lemma rec_running_keeps_handle:
  assumes "snd (rapidio_taks_rec e n) = Running"
  shows "destroys (fst (rapidio_taks_rec e n)) = []"
proof (cases e n rule: rec_paths)
  case (exit evs c t)
  with assms show ?thesis by simp
next
  case (rejected evs r t)
  with assms show ?thesis by simp
next
  case (init_failed evs r t)
  with assms show ?thesis by (simp split: if_splits)
next
  case (no_channels evs r t dev evc rc)
  with assms show ?thesis by (simp split: if_splits)
next
  case (receiving evs r t dev evc t2)
  from parse_args_prints [OF receiving(1)] receiving(4)
    find_channels_events [OF receiving(3)] receive_loop_events [of e dev t2 0 n]
  show ?thesis
    by (simp add: prints_project)
qed

lemma main_handles:
  "handles (fst (main e)) = [] \<and> sends (fst (main e)) = [] \<and> destroys (fst (main e)) = []
   \<or> (\<exists>dev. axidma_init e = Some dev \<and> handles (fst (main e)) = [dev]
         \<and> set (map fst (sends (fst (main e)))) \<subseteq> {dev}
         \<and> destroys (fst (main e)) =
             (if \<exists>c. c \<noteq> 0 \<and> Pthread_create c \<in> set (fst (main e)) then [] else [dev]))"
proof (cases e rule: main_paths)
  case (exit evs c t)
  from parse_args_prints [OF exit] main_exit [OF exit] show ?thesis
    by (simp add: prints_project)
next
  case (rejected evs r t)
  from parse_args_prints [OF rejected(1)] main_parse_error [OF rejected] show ?thesis
    by (simp add: prints_project)
next
  case (init_failed evs r t)
  from parse_args_prints [OF init_failed(1)] main_init_failed [OF init_failed] show ?thesis
    by (simp add: prints_project)
next
  case (no_channels evs r t dev evc rc)
  from parse_args_prints [OF no_channels(1)] main_no_channels [OF no_channels]
    find_channels_events [OF no_channels(4)] no_channels(3)
  show ?thesis
    by (simp add: prints_project)
next
  case (transfers evs r t dev evc t2)
  from parse_args_prints [OF transfers(1)] main_transfers [OF transfers]
    find_channels_events [OF transfers(4)] transfers(3)
  show ?thesis
    by (simp add: prints_project transfer_info_events)
qed

lemma rec_example:
  "rapidio_taks_rec (receive_env\<lparr>argc := 0, getopt_rets := []\<rparr>) (Suc 0) =
     ([Axidma_config, XDma_Out32, Axidma_init (Some 2),
       Print Stdout ''Succeed to initialize the AXI DMA device.\<newline>'',
       Axidma_get_dma_tx 2, Axidma_get_dma_rx 2,
       Axidma0read 2 \<lparr>input_channel = 2, output_channel = 1, input_size = 0,
                       output_size = - 1, output_fd = 0\<rparr>,
       Print Stdout (''\<newline>rec_len = 0x'' @ fmt_d 0 @ ''\<newline>'')],
      Running)"
  by (simp add: rapidio_taks_rec_def receive_env_def example_env_def parse_args_def
      trans_zero_def emit_def find_channels_def dump_loop.simps)

lemma find_channels_first:
  assumes "axidma_get_dma_tx e dev \<noteq> []" and "axidma_get_dma_rx e dev \<noteq> []"
    and "input_channel t = - 1" and "output_channel t = - 1"
  shows "find_channels e dev t =
           ([Axidma_get_dma_tx dev, Axidma_get_dma_rx dev],
            Inr (t\<lparr>input_channel := hd (axidma_get_dma_tx e dev),
                   output_channel := hd (axidma_get_dma_rx e dev)\<rparr>))"
  using assms by (simp add: find_channels_def Let_def hd_conv_nth)


section \<open>The claims\<close>

subsection \<open>Channel resolution takes the first channels\<close>

text \<open>
  C4. When the device reports a non-empty transmit set and a non-empty receive set and both
  channel fields of the descriptor still hold the unset value \<open>-1\<close>, channel resolution
  succeeds and stores the first element of the transmit set in the transmit channel and
  the first element of the receive set in the receive channel, leaving the other fields
  as they were.
\<close>

theorem find_channels_default:
  assumes "axidma_get_dma_tx e dev \<noteq> []" and "axidma_get_dma_rx e dev \<noteq> []"
    and "input_channel t = - 1" and "output_channel t = - 1"
  shows "snd (find_channels e dev t) =
           Inr (t\<lparr>input_channel := hd (axidma_get_dma_tx e dev),
                  output_channel := hd (axidma_get_dma_rx e dev)\<rparr>)"
  using assms by (simp add: find_channels_def Let_def hd_conv_nth)

text \<open>
  The example of the specification: transmit set 2, 3, receive set 1, 4 and no \<open>-t\<close> or
  \<open>-r\<close> on the command line give transmit channel 2 and receive channel 1.
\<close>

theorem find_channels_default_witness:
  "axidma_get_dma_tx example_env 1 \<noteq> []
   \<and> axidma_get_dma_rx example_env 1 \<noteq> []
   \<and> parse_args example_env trans_zero =
       ([], Return 0,
        \<lparr>input_channel = - 1, output_channel = - 1, input_size = 0, output_size = - 1,
         output_fd = 0\<rparr>)
   \<and> snd (find_channels example_env 1 (snd (snd (parse_args example_env trans_zero)))) =
       Inr \<lparr>input_channel = 2, output_channel = 1, input_size = 0, output_size = - 1,
            output_fd = 0\<rparr>"
proof -
  have p: "parse_args example_env trans_zero =
       ([], Return 0,
        \<lparr>input_channel = - 1, output_channel = - 1, input_size = 0, output_size = - 1,
         output_fd = 0\<rparr>)"
    by (simp add: parse_args_def example_env_def trans_zero_def)
  have tx: "axidma_get_dma_tx example_env d = [2, 3]"
    and rx: "axidma_get_dma_rx example_env d = [1, 4]" for d
    by (simp_all add: example_env_def)
  show ?thesis
    using find_channels_default [of example_env 1 "snd (snd (parse_args example_env trans_zero))"]
    by (simp add: p tx rx)
qed

subsection \<open>\<open>-t\<close> and \<open>-r\<close> come as a pair\<close>

text \<open>
  C6, as stated, fails: the pair check compares the two channel values with \<open>-1\<close> and keeps
  no record of which option was given. With \<open>-t -1\<close> alone every value parses, exactly one
  of the two options is supplied, and \<open>parse_args\<close> prints nothing and returns 0; \<open>main\<close>
  goes on to its three sends.
\<close>

theorem lone_t_counterexample:
  "supplied CHR ''t'' (getopt_rets lone_t_env) \<and> \<not> supplied CHR ''r'' (getopt_rets lone_t_env)
   \<and> list_all (arg_parses lone_t_env) (getopt_rets lone_t_env)
   \<and> parse_args lone_t_env trans_zero =
       ([], Return 0,
        \<lparr>input_channel = - 1, output_channel = - 1, input_size = 0, output_size = - 1,
         output_fd = 0\<rparr>)
   \<and> length (sends (fst (main lone_t_env))) = 3"
  by (simp add: lone_t_env_def example_env_def parse_args_def trans_zero_def main_def emit_def
      find_channels_def send_sequence_def spawn_and_finish_def destroy_axidma_def
      close_output_def transfer_info_def Let_def)

text \<open>
  C6, amended. When every option value parses, \<open>-h\<close> is absent, exactly one of \<open>-t\<close> and
  \<open>-r\<close> is supplied, and the value of its last occurrence is not \<open>-1\<close>, then \<open>parse_args\<close>
  returns \<open>-EINVAL\<close> (which is negative) after printing to standard error: the pair
  diagnostic and the usage line when all options are recognised, the usage line alone when
  \<open>getopt\<close> reported an unrecognised one (which \<open>getopt\<close> itself announces). \<open>main\<close> then
  returns 1 without acquiring the device and without any send.
\<close>

theorem lone_channel_option_rejected:
  assumes "list_all (arg_parses e) (getopt_rets e)"
    and "\<not> supplied CHR ''h'' (getopt_rets e)"
    and "supplied CHR ''t'' (getopt_rets e) \<noteq> supplied CHR ''r'' (getopt_rets e)"
    and "channel_given e CHR ''t'' (getopt_rets e) \<noteq> - 1
         \<or> channel_given e CHR ''r'' (getopt_rets e) \<noteq> - 1"
  shows "\<exists>evs t'. parse_args e trans_zero = (evs, Return (- EINVAL), t')
           \<and> - EINVAL < 0
           \<and> evs = (if list_all recognised (getopt_rets e)
                    then [Print Stderr pair_msg, Print Stderr usage_line]
                    else [Print Stderr usage_line])
           \<and> main e = (Axidma_config # XDma_Out32 # evs, Returned 1)
           \<and> handles (fst (main e)) = [] \<and> sends (fst (main e)) = []"
proof -
  have x: "(channel_given e CHR ''t'' (getopt_rets e) = - 1)
             \<noteq> (channel_given e CHR ''r'' (getopt_rets e) = - 1)"
    using assms(3,4) by (auto simp: channel_given_def)
  from parse_args_rejects [OF assms(1,2), of trans_zero] x
  obtain t' where "parse_args e trans_zero =
     ((if \<not> list_all recognised (getopt_rets e) then [Print Stderr usage_line]
       else if (channel_given e CHR ''t'' (getopt_rets e) = - 1)
                 \<noteq> (channel_given e CHR ''r'' (getopt_rets e) = - 1)
       then [Print Stderr pair_msg, Print Stderr usage_line]
       else [Print Stderr excl_msg, Print Stderr usage_line]), Return (- EINVAL), t')"
    by blast
  with x have p: "parse_args e trans_zero =
     ((if list_all recognised (getopt_rets e)
       then [Print Stderr pair_msg, Print Stderr usage_line]
       else [Print Stderr usage_line]), Return (- EINVAL), t')"
    by (cases "list_all recognised (getopt_rets e)") simp_all
  have n: "- EINVAL < 0" by (simp add: EINVAL_def)
  from main_parse_error [OF p n] p n show ?thesis
    by simp
qed

theorem lone_channel_option_rejected_witness:
  "parse_args lone_t3_env trans_zero =
     ([Print Stderr pair_msg, Print Stderr usage_line], Return (- 22),
      \<lparr>input_channel = 3, output_channel = - 1, input_size = 0, output_size = - 1,
       output_fd = 0\<rparr>)
   \<and> main lone_t3_env =
       ([Axidma_config, XDma_Out32, Print Stderr pair_msg, Print Stderr usage_line], Returned 1)
   \<and> sends (fst (main lone_t3_env)) = []"
proof -
  have r: "getopt_rets lone_t3_env = [(CHR ''t'', ''3'')]"
    and i: "parse_int lone_t3_env = (\<lambda>s. (0, 3))"
    by (simp_all add: lone_t3_env_def example_env_def)
  have h: "list_all (arg_parses lone_t3_env) (getopt_rets lone_t3_env)"
    "\<not> supplied CHR ''h'' (getopt_rets lone_t3_env)"
    "supplied CHR ''t'' (getopt_rets lone_t3_env) \<noteq> supplied CHR ''r'' (getopt_rets lone_t3_env)"
    "channel_given lone_t3_env CHR ''t'' (getopt_rets lone_t3_env) \<noteq> - 1
     \<or> channel_given lone_t3_env CHR ''r'' (getopt_rets lone_t3_env) \<noteq> - 1"
    by (simp_all add: r i channel_given_def)
  have p: "parse_args lone_t3_env trans_zero =
     ([Print Stderr pair_msg, Print Stderr usage_line], Return (- 22),
      \<lparr>input_channel = 3, output_channel = - 1, input_size = 0, output_size = - 1,
       output_fd = 0\<rparr>)"
    by (simp add: parse_args_def r i trans_zero_def print_usage_False EINVAL_def)
  from lone_channel_option_rejected [OF h] p show ?thesis
    by (simp add: recognised_def r)
qed

subsection \<open>\<open>-s\<close> and \<open>-o\<close> exclude each other\<close>

text \<open>
  C7, as stated, fails: \<open>-h\<close> leaves \<open>parse_args\<close> through \<open>exit(0)\<close> from inside the option
  loop, before any of the checks. With \<open>-s 1 -o 1 -h\<close> both size options are supplied with
  values that parse, the help text goes to standard output and the process exits with
  status 0.
\<close>

theorem help_counterexample:
  "supplied CHR ''s'' (getopt_rets help_last_env) \<and> supplied CHR ''o'' (getopt_rets help_last_env)
   \<and> list_all (arg_parses help_last_env) (getopt_rets help_last_env)
   \<and> fst (parse_args help_last_env trans_zero) = print_usage True
   \<and> fst (snd (parse_args help_last_env trans_zero)) = Exit 0
   \<and> main help_last_env = (Axidma_config # XDma_Out32 # print_usage True, Exited 0)"
  by (simp add: help_last_env_def example_env_def parse_args_def trans_zero_def main_def emit_def)

text \<open>
  C7, amended. When every option value parses, \<open>-h\<close> is absent and both \<open>-s\<close> and \<open>-o\<close> are
  supplied, in whatever order and however often, \<open>parse_args\<close> returns \<open>-EINVAL\<close> (which is
  negative) after printing to standard error: the usage line alone when \<open>getopt\<close> reported
  an unrecognised option, the pair diagnostic and the usage line when the channel options
  break the pair rule, and otherwise the diagnostic of the two size options and the usage
  line. \<open>main\<close> then returns 1.
\<close>

theorem size_options_exclusive:
  assumes "list_all (arg_parses e) (getopt_rets e)"
    and "\<not> supplied CHR ''h'' (getopt_rets e)"
    and "supplied CHR ''s'' (getopt_rets e)" and "supplied CHR ''o'' (getopt_rets e)"
  shows "\<exists>evs t'. parse_args e trans_zero = (evs, Return (- EINVAL), t')
           \<and> - EINVAL < 0
           \<and> evs = (if \<not> list_all recognised (getopt_rets e) then [Print Stderr usage_line]
                    else if (channel_given e CHR ''t'' (getopt_rets e) = - 1)
                              \<noteq> (channel_given e CHR ''r'' (getopt_rets e) = - 1)
                    then [Print Stderr pair_msg, Print Stderr usage_line]
                    else [Print Stderr excl_msg, Print Stderr usage_line])
           \<and> main e = (Axidma_config # XDma_Out32 # evs, Returned 1)"
proof -
  from parse_args_rejects [OF assms(1,2), of trans_zero] assms(3,4)
  obtain t' where p: "parse_args e trans_zero =
     ((if \<not> list_all recognised (getopt_rets e) then [Print Stderr usage_line]
             else if (channel_given e CHR ''t'' (getopt_rets e) = - 1)
                       \<noteq> (channel_given e CHR ''r'' (getopt_rets e) = - 1)
             then [Print Stderr pair_msg, Print Stderr usage_line]
             else [Print Stderr excl_msg, Print Stderr usage_line]), Return (- EINVAL), t')"
    by blast
  have n: "- EINVAL < 0" by (simp add: EINVAL_def)
  from main_parse_error [OF p n] p n show ?thesis
    by simp
qed

theorem size_options_exclusive_witness:
  "parse_args both_sizes_env trans_zero =
     ([Print Stderr excl_msg, Print Stderr usage_line], Return (- 22),
      \<lparr>input_channel = - 1, output_channel = - 1, input_size = 0, output_size = 0,
       output_fd = 0\<rparr>)
   \<and> main both_sizes_env =
       ([Axidma_config, XDma_Out32, Print Stderr excl_msg, Print Stderr usage_line], Returned 1)"
proof -
  have r: "getopt_rets both_sizes_env = [(CHR ''o'', ''1''), (CHR ''s'', ''1'')]"
    and i: "parse_int both_sizes_env = (\<lambda>s. (0, 0))"
    and d: "parse_double both_sizes_env = (\<lambda>s. (0, 0))"
    and m: "MIB_TO_BYTE both_sizes_env = (\<lambda>x. 0)"
    by (simp_all add: both_sizes_env_def example_env_def)
  have h: "list_all (arg_parses both_sizes_env) (getopt_rets both_sizes_env)"
    "\<not> supplied CHR ''h'' (getopt_rets both_sizes_env)"
    "supplied CHR ''s'' (getopt_rets both_sizes_env)"
    "supplied CHR ''o'' (getopt_rets both_sizes_env)"
    by (simp_all add: r i d)
  have p: "parse_args both_sizes_env trans_zero =
     ([Print Stderr excl_msg, Print Stderr usage_line], Return (- 22),
      \<lparr>input_channel = - 1, output_channel = - 1, input_size = 0, output_size = 0,
       output_fd = 0\<rparr>)"
    by (simp add: parse_args_def r i d m trans_zero_def print_usage_False EINVAL_def)
  from size_options_exclusive [OF h] p show ?thesis
    by (simp add: recognised_def r channel_given_def)
qed

subsection \<open>At most two tokens may be left over\<close>

text \<open>
  C8, as stated, fails in both directions, since the check of the tokens left over is the
  last of three and comes after the option loop. With \<open>-t 3\<close> alone no token is left and
  validation fails, on the pair rule; with \<open>-h a b c\<close> three tokens are left and the
  process exits with status 0 from inside the loop.
\<close>

theorem trailing_counterexample:
  "argc lone_t3_env - optind_end lone_t3_env = 0
   \<and> fst (snd (parse_args lone_t3_env trans_zero)) = Return (- 22)
   \<and> argc help_three_left_env - optind_end help_three_left_env = 3
   \<and> fst (snd (parse_args help_three_left_env trans_zero)) = Exit 0"
  by (simp add: parse_args_def lone_t3_env_def help_three_left_env_def example_env_def
      trans_zero_def EINVAL_def)

text \<open>
  C8, amended. Validation never succeeds with more than two tokens left. When every option
  is recognised (so \<open>-h\<close> is absent), every value parses, and the pair rule and the exclusion
  of \<open>-s\<close> and \<open>-o\<close> are respected, validation fails exactly when more than two of the
  \<open>argc - optind\<close> tokens are left: it then prints the diagnostic of too many arguments and
  the usage line to standard error and returns \<open>-EINVAL\<close>; with none, one or two left it
  prints nothing and returns 0.
\<close>

theorem trailing_arguments_check:
  "(fst (snd (parse_args e t0)) = Return 0 \<longrightarrow> argc e - optind_end e \<le> 2)
   \<and> (list_all (arg_parses e) (getopt_rets e) \<and> list_all recognised (getopt_rets e)
        \<and> (channel_given e CHR ''t'' (getopt_rets e) = - 1)
             = (channel_given e CHR ''r'' (getopt_rets e) = - 1)
        \<and> \<not> (supplied CHR ''s'' (getopt_rets e) \<and> supplied CHR ''o'' (getopt_rets e)) \<longrightarrow>
       (\<exists>t'. parse_args e t0 =
           (if 2 < argc e - optind_end e
            then ([Print Stderr too_many_msg, Print Stderr usage_line], Return (- EINVAL), t')
            else ([], Return 0, t'))))"
proof (intro conjI impI)
  assume "fst (snd (parse_args e t0)) = Return 0"
  then show "argc e - optind_end e \<le> 2"
    by (rule parse_args_accepts)
next
  assume a: "list_all (arg_parses e) (getopt_rets e) \<and> list_all recognised (getopt_rets e)
        \<and> (channel_given e CHR ''t'' (getopt_rets e) = - 1)
             = (channel_given e CHR ''r'' (getopt_rets e) = - 1)
        \<and> \<not> (supplied CHR ''s'' (getopt_rets e) \<and> supplied CHR ''o'' (getopt_rets e))"
  then have p: "list_all (arg_parses e) (getopt_rets e)"
    and q: "list_all recognised (getopt_rets e)"
    by simp_all
  from getopt_loop_defaults [OF p q, of t0]
  obtain t' where
    l: "getopt_loop e (getopt_rets e)
       (t0\<lparr>input_channel := - 1, output_channel := - 1, output_size := - 1\<rparr>) False False =
     ([], None, t', supplied CHR ''o'' (getopt_rets e), supplied CHR ''s'' (getopt_rets e))"
    and i: "input_channel t' = channel_given e CHR ''t'' (getopt_rets e)"
    and u: "output_channel t' = channel_given e CHR ''r'' (getopt_rets e)"
    by blast
  from a l i u show "\<exists>t'. parse_args e t0 =
           (if 2 < argc e - optind_end e
            then ([Print Stderr too_many_msg, Print Stderr usage_line], Return (- EINVAL), t')
            else ([], Return 0, t'))"
    by (auto simp: parse_args_def print_usage_False)
qed

theorem trailing_arguments_check_witness:
  "parse_args three_left_env trans_zero =
     ([Print Stderr too_many_msg, Print Stderr usage_line], Return (- 22),
      \<lparr>input_channel = - 1, output_channel = - 1, input_size = 0, output_size = - 1,
       output_fd = 0\<rparr>)
   \<and> parse_args two_left_env trans_zero =
     ([], Return 0,
      \<lparr>input_channel = - 1, output_channel = - 1, input_size = 0, output_size = - 1,
       output_fd = 0\<rparr>)"
proof -
  have r: "getopt_rets three_left_env = []" "getopt_rets two_left_env = []"
    and a: "argc three_left_env - optind_end three_left_env = 3"
      "argc two_left_env - optind_end two_left_env = 2"
    by (simp_all add: three_left_env_def two_left_env_def example_env_def)
  have t: "snd (snd (parse_args e trans_zero)) =
      \<lparr>input_channel = - 1, output_channel = - 1, input_size = 0, output_size = - 1,
       output_fd = 0\<rparr>" if "getopt_rets e = []" for e
    using that by (simp add: parse_args_def trans_zero_def)
  from trailing_arguments_check [of three_left_env trans_zero] t [OF r(1)]
  have "parse_args three_left_env trans_zero =
     ([Print Stderr too_many_msg, Print Stderr usage_line], Return (- 22),
      \<lparr>input_channel = - 1, output_channel = - 1, input_size = 0, output_size = - 1,
       output_fd = 0\<rparr>)"
    by (auto simp: r a channel_given_def EINVAL_def)
  moreover
  from trailing_arguments_check [of two_left_env trans_zero] t [OF r(2)]
  have "parse_args two_left_env trans_zero =
     ([], Return 0,
      \<lparr>input_channel = - 1, output_channel = - 1, input_size = 0, output_size = - 1,
       output_fd = 0\<rparr>)"
    by (auto simp: r a channel_given_def)
  ultimately show ?thesis
    by simp
qed

subsection \<open>The send buffer holds the pattern before any send\<close>

text \<open>
  C9. Every send \<open>main\<close> issues, in any run, is handed the buffer the initialisation loop
  produced from the zeroed array, and in that buffer the byte at each index below 2000 is
  the index modulo 256. The loop runs before \<open>parse_args\<close>, hence before the first send.
\<close>

theorem sbuffer_pattern_in_every_send:
  assumes "(dev, t, b) \<in> set (sends (fst (main e)))" and "i < 2000"
  shows "b = sbuffer_init sbuffer0 \<and> unat (b ! i) = i mod 256"
proof -
  from main_sends [of e] assms(1) have "b = sbuffer_init sbuffer0"
    by auto
  with sbuffer_init_pattern [OF assms(2)] show ?thesis
    by simp
qed

theorem sbuffer_pattern_in_every_send_witness:
  "(1, \<lparr>input_channel = 2, output_channel = 1, input_size = 2000, output_size = 2048,
        output_fd = 0\<rparr>, sbuffer_init sbuffer0) \<in> set (sends (fst (main example_env)))
   \<and> unat (sbuffer_init sbuffer0 ! 300) = 44"
proof -
  have m: "(1, \<lparr>input_channel = 2, output_channel = 1, input_size = 2000, output_size = 2048,
        output_fd = 0\<rparr>, sbuffer_init sbuffer0) \<in> set (sends (fst (main example_env)))"
    by (simp add: main_example transfer_info_events)
  from sbuffer_pattern_in_every_send [OF m, of 300] m show ?thesis
    by simp
qed

subsection \<open>The sends do not depend on one another's results\<close>

text \<open>
  C2, as stated, fails: the value a send returns is stored in \<open>rc\<close> and not looked at before
  the next send. When the first send returns \<open>-5\<close>, the sends of 2000 and of 1800 bytes are
  issued all the same.
\<close>

theorem failing_send_counterexample:
  "sint (axidma0send failing_send_env 0) < 0
   \<and> map (\<lambda>x. input_size (fst (snd x))) (sends (fst (main failing_send_env))) =
       [1000, 2000, 1800]"
proof -
  have "fst (main failing_send_env) = fst (main example_env)"
    unfolding failing_send_env_def by (rule main_trace_send_irrelevant)
  then show ?thesis
    by (simp add: main_example transfer_info_events) (simp add: failing_send_env_def)
qed

text \<open>
  C2, amended. In every run that reaches the send sequence (the arguments are accepted, the
  device is initialised, both channel sets are non-empty) the three sends of 1000, 2000
  and 1800 bytes are issued once each, in this order and on the handle of \<open>axidma_init\<close>,
  whatever any of them returns: replacing the results of the sends leaves the trace of
  \<open>main\<close> unchanged. No send is retried. Only the result of the third send reaches the
  return value: when \<open>pthread_create\<close> and \<open>close\<close> succeed, \<open>main\<close> returns the 32-bit
  negation of that result when it is negative, and 0 otherwise.
\<close>

theorem sends_issued_whatever_they_return:
  assumes "parse_args e trans_zero = (evs, Return r, t)" and "\<not> r < 0"
    and "axidma_init e = Some dev"
    and "axidma_get_dma_tx e dev \<noteq> []" and "axidma_get_dma_rx e dev \<noteq> []"
  shows "map (\<lambda>x. (fst x, input_size (fst (snd x)))) (sends (fst (main e))) =
           [(dev, 1000), (dev, 2000), (dev, 1800)]
         \<and> fst (main (e\<lparr>axidma0send := f\<rparr>)) = fst (main e)
         \<and> snd (main e) =
             (if pthread_create e \<noteq> 0 then Returned (- 1)
              else if close_ret e = 0
                   then Returned (sint (if sint (axidma0send e 2) < 0 then - axidma0send e 2 else 0))
                   else Aborted)"
proof -
  from find_channels_found [OF assms(4,5), of t] obtain t2 where
    f: "find_channels e dev t = ([Axidma_get_dma_tx dev, Axidma_get_dma_rx dev], Inr t2)"
    by blast
  from main_transfers [OF assms(1,2,3) f] parse_args_prints [OF assms(1)]
  show ?thesis
    by (simp add: prints_project transfer_info_events main_trace_send_irrelevant)
qed

theorem sends_issued_whatever_they_return_witness:
  "map (\<lambda>x. (fst x, input_size (fst (snd x)))) (sends (fst (main failing_send_env))) =
     [(1, 1000), (1, 2000), (1, 1800)]
   \<and> snd (main failing_send_env) = Returned 5"
proof -
  have p: "parse_args failing_send_env trans_zero =
       ([], Return 0,
        \<lparr>input_channel = - 1, output_channel = - 1, input_size = 0, output_size = - 1,
         output_fd = 0\<rparr>)"
    by (simp add: parse_args_def failing_send_env_def example_env_def trans_zero_def)
  have h: "\<not> (0::int) < 0" "axidma_init failing_send_env = Some 1"
    "axidma_get_dma_tx failing_send_env 1 \<noteq> []" "axidma_get_dma_rx failing_send_env 1 \<noteq> []"
    by (simp_all add: failing_send_env_def example_env_def)
  have c: "pthread_create failing_send_env = 0" "close_ret failing_send_env = 0"
    "axidma0send failing_send_env 2 = - 5"
    by (simp_all add: failing_send_env_def example_env_def)
  from sends_issued_whatever_they_return [OF p h] show ?thesis
    by (simp add: c)
qed

subsection \<open>The receive task is created after the sends and never joined\<close>

text \<open>
  C3, as stated, fails: not every run of \<open>main\<close> detaches the receive task. When
  \<open>pthread_create\<close> fails (here with code 11) the three sends have been issued, no thread
  exists, \<open>pthread_detach\<close> is not called and \<open>main\<close> returns \<open>-1\<close>.
\<close>

theorem failed_create_counterexample:
  "map (\<lambda>x. input_size (fst (snd x))) (sends (fst (main no_thread_env))) = [1000, 2000, 1800]
   \<and> Pthread_create 11 \<in> set (fst (main no_thread_env))
   \<and> Pthread_detach \<notin> set (fst (main no_thread_env))
   \<and> snd (main no_thread_env) = Returned (- 1)"
proof -
  have p: "parse_args no_thread_env trans_zero =
       ([], Return 0,
        \<lparr>input_channel = - 1, output_channel = - 1, input_size = 0, output_size = - 1,
         output_fd = 0\<rparr>)"
    by (simp add: parse_args_def no_thread_env_def example_env_def trans_zero_def)
  have i: "axidma_init no_thread_env = Some 1"
    by (simp add: no_thread_env_def example_env_def)
  have f: "find_channels no_thread_env 1
        \<lparr>input_channel = - 1, output_channel = - 1, input_size = 0, output_size = - 1,
         output_fd = 0\<rparr> =
       ([Axidma_get_dma_tx 1, Axidma_get_dma_rx 1],
        Inr \<lparr>input_channel = 2, output_channel = 1, input_size = 0, output_size = - 1,
         output_fd = 0\<rparr>)"
    by (simp add: find_channels_def no_thread_env_def example_env_def)
  have c: "pthread_create no_thread_env = 11"
    by (simp add: no_thread_env_def example_env_def)
  show ?thesis
    using main_transfers [OF p _ i f] by (simp add: c transfer_info_events)
qed

text \<open>
  C3, amended. No run of \<open>main\<close> joins a thread, and a run detaches a thread exactly when
  its \<open>pthread_create\<close> succeeded. \<open>main\<close> calls \<open>pthread_create\<close> in every run in which the
  arguments are accepted, the device is initialised and both channel sets are non-empty.
  In every run in which it is called, it is called once, and the three sends of 1000, 2000
  and 1800 bytes have been issued, and have returned, before it. When the call succeeds,
  \<open>main\<close> detaches the thread, destroys the device, closes the descriptor and returns, or
  aborts when the assertion on \<open>close\<close> fails; when the call fails, \<open>main\<close> reports it and
  returns \<open>-1\<close> without detaching.
\<close>

theorem receive_task_spawned_after_sends:
  "Pthread_join \<notin> set (fst (main e))
   \<and> (Pthread_detach \<in> set (fst (main e)) \<longleftrightarrow> Pthread_create 0 \<in> set (fst (main e)))
   \<and> (parse_args e trans_zero = (evs, Return r, t) \<and> \<not> r < 0 \<and> axidma_init e = Some d
        \<and> axidma_get_dma_tx e d \<noteq> [] \<and> axidma_get_dma_rx e d \<noteq> [] \<longrightarrow>
       Pthread_create (pthread_create e) \<in> set (fst (main e)))
   \<and> (Pthread_create c \<in> set (fst (main e)) \<longrightarrow>
       (\<exists>pre dev fd.
           c = pthread_create e \<and>
           fst (main e) =
             pre @ Pthread_create c #
               (if c = 0 then [Pthread_detach, Axidma_destroy dev, Close fd]
                else [Print Stdout ''pthreadrx_create fail\<newline>''])
           \<and> map (\<lambda>x. input_size (fst (snd x))) (sends pre) = [1000, 2000, 1800]
           \<and> Pthread_create c \<notin> set pre
           \<and> snd (main e) =
               (if c \<noteq> 0 then Returned (- 1)
                else if close_ret e = 0
                     then Returned
                            (sint (if sint (axidma0send e 2) < 0 then - axidma0send e 2 else 0))
                     else Aborted)))"
  using main_no_join [of e] main_spawns [of c e] main_detaches [of e]
    main_reaches_create [of e evs r t d]
  by blast

theorem receive_task_spawned_after_sends_witness:
  "Pthread_create 0 \<in> set (fst (main example_env))
   \<and> Pthread_join \<notin> set (fst (main example_env))
   \<and> snd (main example_env) = Returned 0
   \<and> (\<exists>pre. fst (main example_env) =
               pre @ [Pthread_create 0, Pthread_detach, Axidma_destroy 1, Close 0]
             \<and> map (\<lambda>x. input_size (fst (snd x))) (sends pre) = [1000, 2000, 1800])"
proof -
  have p: "parse_args example_env trans_zero =
       ([], Return 0,
        \<lparr>input_channel = - 1, output_channel = - 1, input_size = 0, output_size = - 1,
         output_fd = 0\<rparr>)"
    by (simp add: parse_args_def example_env_def trans_zero_def)
  have h: "\<not> (0::int) < 0" "axidma_init example_env = Some 1"
    "axidma_get_dma_tx example_env 1 \<noteq> []" "axidma_get_dma_rx example_env 1 \<noteq> []"
    "pthread_create example_env = 0"
    by (simp_all add: example_env_def)
  note t = receive_task_spawned_after_sends [of example_env "[]" 0
      "\<lparr>input_channel = - 1, output_channel = - 1, input_size = 0, output_size = - 1,
        output_fd = 0\<rparr>" 1 0]
  from t p h(1-4) have "Pthread_create (pthread_create example_env) \<in> set (fst (main example_env))"
    by blast
  then have m: "Pthread_create 0 \<in> set (fst (main example_env))"
    by (simp only: h(5))
  have l: "last (fst (main example_env)) = Close 0"
    "last (butlast (fst (main example_env))) = Axidma_destroy 1"
    by (simp_all add: main_example transfer_info_def)
  have c: "close_ret example_env = 0" "axidma0send example_env 2 = 0"
    by (simp_all add: example_env_def)
  from t have j: "Pthread_join \<notin> set (fst (main example_env))"
    by blast
  from t m have "\<exists>pre dev fd.
           0 = pthread_create example_env \<and>
           fst (main example_env) =
             pre @ Pthread_create 0 #
               (if (0::int) = 0 then [Pthread_detach, Axidma_destroy dev, Close fd]
                else [Print Stdout ''pthreadrx_create fail\<newline>''])
           \<and> map (\<lambda>x. input_size (fst (snd x))) (sends pre) = [1000, 2000, 1800]
           \<and> Pthread_create 0 \<notin> set pre
           \<and> snd (main example_env) =
               (if (0::int) \<noteq> 0 then Returned (- 1)
                else if close_ret example_env = 0
                     then Returned
                            (sint (if sint (axidma0send example_env 2) < 0
                                   then - axidma0send example_env 2 else 0))
                     else Aborted)"
    by blast
  then obtain pre dev fd where
    t: "fst (main example_env) =
          pre @ [Pthread_create 0, Pthread_detach, Axidma_destroy dev, Close fd]"
    and s: "map (\<lambda>x. input_size (fst (snd x))) (sends pre) = [1000, 2000, 1800]"
    and r: "snd (main example_env) = Returned 0"
    by (auto simp: c)
  from l t have "fd = 0" "dev = 1"
    by (simp_all add: butlast_append)
  with t s r j m show ?thesis
    by auto
qed

subsection \<open>What one pass of the receive loop prints\<close>

text \<open>
  When a receive returns a length \<open>N\<close> between 0 and 2048, the capacity of the receive
  array, the pass of the loop that issued it completes and writes to standard output the
  line of the count and then the dump of the first \<open>N\<close> bytes of the array: one token of
  two hexadecimal digits per byte, \<open>N\<close> tokens in all, in lines of sixteen tokens, the last
  line holding the remainder. The line of the count is the characters \<open>rec_len = 0x\<close>
  followed by the decimal numeral of \<open>N\<close>.
\<close>

lemma receive_pass_text:
  assumes "axidma0read e k = (N, rbuffer)" and "0 \<le> N" and "N \<le> 2048"
    and "length rbuffer = 2048"
  shows "\<exists>evs. receive_loop e dev t k (Suc n) = emit evs (receive_loop e dev t (k + 1) n)
           \<and> text_on Stdout evs =
               ''\<newline>rec_len = 0x'' @ fmt_d N @ ''\<newline>'' @ dump_text (take (nat N) rbuffer)
           \<and> numeral_value 10 (fmt_d N) = nat N
           \<and> length (concat (chunks 16 (take (nat N) rbuffer))) = nat N
           \<and> (\<forall>line \<in> set (chunks 16 (take (nat N) rbuffer)). line \<noteq> [] \<and> length line \<le> 16)
           \<and> (\<forall>line \<in> set (butlast (chunks 16 (take (nat N) rbuffer))). length line = 16)
           \<and> (\<forall>b. \<exists>h l. hex_token b = [CHR ''0'', CHR ''x'', h, l, CHR '' '']
                    \<and> h \<in> set ''0123456789abcdef'' \<and> l \<in> set ''0123456789abcdef'')"
proof -
  from assms have b: "N \<le> int (length rbuffer)"
    by simp
  from dump_loop_text [OF b] obtain dump where
    d: "dump_loop 0 N rbuffer = Some dump"
    and x: "text_on Stdout dump = dump_text (take (nat N) rbuffer)"
    by blast
  define evs where
    "evs = [Axidma0read dev t, Print Stdout (''\<newline>rec_len = 0x'' @ fmt_d N @ ''\<newline>'')] @ dump"
  from x have o: "text_on Stdout evs =
       ''\<newline>rec_len = 0x'' @ fmt_d N @ ''\<newline>'' @ dump_text (take (nat N) rbuffer)"
    by (simp add: evs_def)
  from assms have l: "length (concat (chunks 16 (take (nat N) rbuffer))) = nat N"
    by (simp add: concat_chunks)
  have g: "\<forall>line \<in> set (chunks 16 (take (nat N) rbuffer)). line \<noteq> [] \<and> length line \<le> 16"
    using chunks_lengths [of _ 16 "take (nat N) rbuffer"] by blast
  have f: "\<forall>line \<in> set (butlast (chunks 16 (take (nat N) rbuffer))). length line = 16"
    using chunks_full [of _ 16 "take (nat N) rbuffer"] by blast
  have k: "\<forall>b. \<exists>h l. hex_token b = [CHR ''0'', CHR ''x'', h, l, CHR '' '']
                    \<and> h \<in> set ''0123456789abcdef'' \<and> l \<in> set ''0123456789abcdef''"
    using hex_token_shape by blast
  from d assms(1) have
    "receive_loop e dev t k (Suc n) = emit evs (receive_loop e dev t (k + 1) n)"
    by (simp add: evs_def emit_emit)
  moreover from assms(2) have "numeral_value 10 (fmt_d N) = nat N"
    by (rule fmt_d_denotes)
  ultimately show ?thesis
    using o l g f k by blast
qed

text \<open>
  C5. The dump is as the claim says; the count is not. The format of line 267 is
  \<open>0x%d\<close>, decimal digits behind the prefix of a hexadecimal numeral, where the tokens of
  the dump are printed with \<open>0x%02x\<close>. For a receive of 16 bytes the pass prints the count
  as \<open>0x16\<close>, which denotes 22, followed by a dump of sixteen tokens in one line.
\<close>

theorem count_is_printed_behind_a_hexadecimal_prefix:
  "text_on Stdout (fst (receive_loop sixteen_env 1 trans_zero 0 (Suc 0))) =
     ''\<newline>rec_len = 0x16\<newline>\<newline>0x00 0x01 0x02 0x03 0x04 0x05 0x06 0x07 0x08 0x09 0x0a 0x0b 0x0c 0x0d 0x0e 0x0f ''
   \<and> numeral_value 10 ''16'' = 16
   \<and> numeral_value 16 ''16'' = 22"
proof -
  have a: "axidma0read sixteen_env 0 = (16, map of_nat [0..<2048])"
    by (simp add: sixteen_env_def example_env_def)
  have t: "take (nat 16) (map of_nat [0..<2048]) = (map of_nat [0..<16] :: u8 list)"
    by (simp add: take_map)
  have d: "dump_text (map of_nat [0..<16]) =
     ''\<newline>0x00 0x01 0x02 0x03 0x04 0x05 0x06 0x07 0x08 0x09 0x0a 0x0b 0x0c 0x0d 0x0e 0x0f ''"
    by code_simp
  have f: "fmt_d 16 = ''16''"
    by code_simp
  have v: "numeral_value 10 ''16'' = 16" "numeral_value 16 ''16'' = 22"
    by code_simp+
  have h: "(0::int) \<le> 16" "(16::int) \<le> 2048" "length (map of_nat [0..<2048] :: u8 list) = 2048"
    by simp_all
  from receive_pass_text [OF a h, of 1 trans_zero 0]
  obtain evs where
    l: "receive_loop sixteen_env 1 trans_zero 0 (Suc 0) =
          emit evs (receive_loop sixteen_env 1 trans_zero (0 + 1) 0)"
    and o: "text_on Stdout evs =
       ''\<newline>rec_len = 0x'' @ fmt_d 16 @ ''\<newline>'' @
       dump_text (take (nat 16) (map of_nat [0..<2048]))"
    by blast
  have e: "receive_loop sixteen_env 1 trans_zero (0 + 1) 0 = ([], Running)"
    by simp
  from l have "fst (receive_loop sixteen_env 1 trans_zero 0 (Suc 0)) = evs"
    unfolding e by (simp add: emit_def)
  with o v show ?thesis
    unfolding t d f by simp
qed

subsection \<open>An explicit \<open>-1\<close> is the unset value\<close>

text \<open>
  C10. With \<open>-t -1 -r -1\<close> on the command line (and \<open>parse_int\<close> reading \<open>-1\<close> as the integer
  it denotes), \<open>parse_args\<close> succeeds and returns exactly what it returns for a command line
  without options: both channel fields hold \<open>-1\<close>. Channel resolution then takes the first
  transmit and the first receive channel of the device, as it does when no channel was
  asked for.
\<close>

theorem explicit_minus_one_is_unset:
  assumes "getopt_rets e = [(CHR ''t'', ''-1''), (CHR ''r'', ''-1'')]"
    and "parse_int e ''-1'' = (rc, - 1)" and "0 \<le> rc"
    and "argc e - optind_end e \<le> 2"
    and "getopt_rets e' = []" and "argc e' - optind_end e' \<le> 2"
    and "axidma_get_dma_tx e dev \<noteq> []" and "axidma_get_dma_rx e dev \<noteq> []"
  shows "parse_args e t0 =
           ([], Return 0, t0\<lparr>input_channel := - 1, output_channel := - 1, output_size := - 1\<rparr>)
         \<and> parse_args e' t0 = parse_args e t0
         \<and> snd (find_channels e dev (snd (snd (parse_args e t0)))) =
             Inr (t0\<lparr>input_channel := hd (axidma_get_dma_tx e dev),
                    output_channel := hd (axidma_get_dma_rx e dev), output_size := - 1\<rparr>)"
proof -
  from assms(1-4) have p: "parse_args e t0 =
      ([], Return 0, t0\<lparr>input_channel := - 1, output_channel := - 1, output_size := - 1\<rparr>)"
    by (simp add: parse_args_def)
  from assms(5,6) have q: "parse_args e' t0 =
      ([], Return 0, t0\<lparr>input_channel := - 1, output_channel := - 1, output_size := - 1\<rparr>)"
    by (simp add: parse_args_def)
  from find_channels_first [OF assms(7,8),
      of "t0\<lparr>input_channel := - 1, output_channel := - 1, output_size := - 1\<rparr>"]
  show ?thesis
    by (simp add: p q)
qed

theorem explicit_minus_one_is_unset_witness:
  "parse_args explicit_unset_env trans_zero = parse_args example_env trans_zero
   \<and> parse_args explicit_unset_env trans_zero =
       ([], Return 0,
        \<lparr>input_channel = - 1, output_channel = - 1, input_size = 0, output_size = - 1,
         output_fd = 0\<rparr>)
   \<and> snd (find_channels explicit_unset_env 1
            (snd (snd (parse_args explicit_unset_env trans_zero)))) =
       Inr \<lparr>input_channel = 2, output_channel = 1, input_size = 0, output_size = - 1,
            output_fd = 0\<rparr>"
proof -
  have h: "getopt_rets explicit_unset_env = [(CHR ''t'', ''-1''), (CHR ''r'', ''-1'')]"
    "parse_int explicit_unset_env ''-1'' = (0, - 1)" "(0::int) \<le> 0"
    "argc explicit_unset_env - optind_end explicit_unset_env \<le> 2"
    "getopt_rets example_env = []" "argc example_env - optind_end example_env \<le> 2"
    by (simp_all add: explicit_unset_env_def example_env_def)
  have c: "axidma_get_dma_tx explicit_unset_env d = [2, 3]"
    "axidma_get_dma_rx explicit_unset_env d = [1, 4]" for d
    by (simp_all add: explicit_unset_env_def example_env_def)
  have n: "axidma_get_dma_tx explicit_unset_env 1 \<noteq> []"
    "axidma_get_dma_rx explicit_unset_env 1 \<noteq> []"
    by (simp_all only: c) simp_all
  note t = explicit_minus_one_is_unset [OF h n, of trans_zero]
  from t have p: "parse_args explicit_unset_env trans_zero =
      ([], Return 0,
       trans_zero\<lparr>input_channel := - 1, output_channel := - 1, output_size := - 1\<rparr>)"
    by blast
  from t have q: "parse_args example_env trans_zero = parse_args explicit_unset_env trans_zero"
    by blast
  from t have f: "snd (find_channels explicit_unset_env 1
            (snd (snd (parse_args explicit_unset_env trans_zero)))) =
      Inr (trans_zero\<lparr>input_channel := hd (axidma_get_dma_tx explicit_unset_env 1),
             output_channel := hd (axidma_get_dma_rx explicit_unset_env 1),
             output_size := - 1\<rparr>)"
    by blast
  show ?thesis
    unfolding q f unfolding p by (simp add: c trans_zero_def)
qed

subsection \<open>Device handles\<close>

text \<open>
  C1, as stated, fails: the receive task is not given the handle of \<open>main\<close>; it calls
  \<open>axidma_init\<close> itself. In a run where the thread is created and the library answers the
  second call with another handle, two handles exist, the sends go to the first and the
  receive to the second, and \<open>axidma_destroy\<close> is called once, on the first.
\<close>

theorem two_handles_counterexample:
  "handles (run_events (process_run example_env receive_env (Suc 0))) = [1, 2]
   \<and> map fst (sends (run_events (process_run example_env receive_env (Suc 0)))) = [1, 1, 1]
   \<and> reads (run_events (process_run example_env receive_env (Suc 0))) = [2]
   \<and> destroys (run_events (process_run example_env receive_env (Suc 0))) = [1]"
proof -
  have "process_run example_env receive_env (Suc 0) =
      (main example_env, Some (rapidio_taks_rec (receive_env\<lparr>argc := 0, getopt_rets := []\<rparr>) (Suc 0)))"
    by (simp add: process_run_def Let_def main_example)
  then show ?thesis
    by (simp add: run_events_def main_example rec_example transfer_info_events)
qed

text \<open>
  C1, amended. Each task acquires at most one handle, by its own call of \<open>axidma_init\<close>:
  every send of \<open>main\<close> is issued on the handle \<open>main\<close> acquired and every receive of the
  receive task on the handle the receive task acquired. On every path of \<open>main\<close> other than
  the return after a failed \<open>pthread_create\<close>, \<open>axidma_destroy\<close> is called exactly once on
  the handle of \<open>main\<close> when one was acquired, and not at all otherwise. The receive task,
  while it is in its loop, has not destroyed its handle.
\<close>

theorem each_task_has_its_own_handle:
  "length (handles (fst (main e))) \<le> 1
   \<and> (\<forall>x \<in> set (sends (fst (main e))).
         axidma_init e = Some (fst x) \<and> handles (fst (main e)) = [fst x])
   \<and> ((\<forall>c. Pthread_create c \<in> set (fst (main e)) \<longrightarrow> c = 0) \<longrightarrow>
         destroys (fst (main e)) = handles (fst (main e)))
   \<and> length (handles (fst (rapidio_taks_rec e' n))) \<le> 1
   \<and> (\<forall>d \<in> set (reads (fst (rapidio_taks_rec e' n))).
         axidma_init e' = Some d \<and> handles (fst (rapidio_taks_rec e' n)) = [d])
   \<and> (snd (rapidio_taks_rec e' n) = Running \<longrightarrow> destroys (fst (rapidio_taks_rec e' n)) = [])"
  using main_handles [of e] rec_handles [of e' n] rec_running_keeps_handle [of e' n]
  by (auto split: if_splits)

theorem each_task_has_its_own_handle_witness:
  "handles (fst (main example_env)) = [1]
   \<and> destroys (fst (main example_env)) = [1]
   \<and> (1, \<lparr>input_channel = 2, output_channel = 1, input_size = 1000, output_size = 2048,
           output_fd = 0\<rparr>, sbuffer_init sbuffer0) \<in> set (sends (fst (main example_env)))
   \<and> handles (fst (rapidio_taks_rec (receive_env\<lparr>argc := 0, getopt_rets := []\<rparr>) (Suc 0))) = [2]
   \<and> 2 \<in> set (reads (fst (rapidio_taks_rec (receive_env\<lparr>argc := 0, getopt_rets := []\<rparr>) (Suc 0))))
   \<and> destroys (fst (rapidio_taks_rec (receive_env\<lparr>argc := 0, getopt_rets := []\<rparr>) (Suc 0))) = []"
proof -
  let ?r = "receive_env\<lparr>argc := 0, getopt_rets := []\<rparr>"
  have s: "(1, \<lparr>input_channel = 2, output_channel = 1, input_size = 1000, output_size = 2048,
           output_fd = 0\<rparr>, sbuffer_init sbuffer0) \<in> set (sends (fst (main example_env)))"
    by (simp add: main_example transfer_info_events)
  have c: "\<forall>c. Pthread_create c \<in> set (fst (main example_env)) \<longrightarrow> c = 0"
    by (simp add: main_example transfer_info_def)
  have d: "2 \<in> set (reads (fst (rapidio_taks_rec ?r (Suc 0))))"
    by (simp add: rec_example)
  have u: "snd (rapidio_taks_rec ?r (Suc 0)) = Running"
    by (simp add: rec_example)
  note t = each_task_has_its_own_handle [of example_env ?r "Suc 0"]
  from t s have "handles (fst (main example_env)) = [1]"
    by fastforce
  moreover from t c have "destroys (fst (main example_env)) = handles (fst (main example_env))"
    by blast
  moreover from t d have "handles (fst (rapidio_taks_rec ?r (Suc 0))) = [2]"
    by blast
  moreover from t u have "destroys (fst (rapidio_taks_rec ?r (Suc 0))) = []"
    by blast
  ultimately show ?thesis
    using s d by simp
qed

end
